theory Spec2Isabelle
  imports Main "HOL-Library.Sublist" "HOL-Library.List_Lexorder" "HOL-Library.Char_ord"
begin

section \<open>Strings\<close>

text \<open>
  Python strings are modelled as \<^typ>\<open>string\<close>, one \<^typ>\<open>char\<close> per character, over
  ASCII. \<open>str.lower()\<close> and the \<open>re.IGNORECASE\<close> flag act on the letters \<open>A\<close> to \<open>Z\<close>.
  \<open>x in s\<close> on strings is \<^const>\<open>sublist\<close>, \<open>s.startswith(x)\<close> is \<^const>\<open>prefix\<close>.
\<close>

definition is_upper :: "char \<Rightarrow> bool" where
  "is_upper c = (65 \<le> (of_char c :: nat) \<and> (of_char c :: nat) \<le> 90)"



definition lower_char :: "char \<Rightarrow> char" where
  "lower_char c = (if is_upper c then char_of ((of_char c :: nat) + 32) else c)"

definition lower :: "string \<Rightarrow> string" where
  "lower s = map lower_char s"


section \<open>Skills from the language histogram (app.py, lines 161, 192, 200, 230-234)\<close>

text \<open>
  \<open>all_languages\<close> is a Python dict, which keeps its keys in insertion order: an
  association list with distinct keys. \<open>all_languages.get(lang, 0)\<close> is \<open>dict_get\<close>,
  the assignment \<open>all_languages[lang] = v\<close> is \<open>dict_set\<close> (a known key keeps its place,
  a new key goes to the end).
\<close>

type_synonym 'k histogram = "('k \<times> int) list"

definition dict_get :: "('k \<times> 'v) list \<Rightarrow> 'k \<Rightarrow> 'v \<Rightarrow> 'v" where
  "dict_get d k dflt = (case map_of d k of None \<Rightarrow> dflt | Some v \<Rightarrow> v)"

fun dict_set :: "'k \<Rightarrow> 'v \<Rightarrow> ('k \<times> 'v) list \<Rightarrow> ('k \<times> 'v) list" where
  "dict_set k v [] = [(k, v)]"
| "dict_set k v (p # ps) = (if fst p = k then (k, v) # ps else p # dict_set k v ps)"

text \<open>\<open>all_languages[lang] = all_languages.get(lang, 0) + 1\<close>\<close>

definition record_language :: "'k histogram \<Rightarrow> 'k \<Rightarrow> 'k histogram" where
  "record_language all_languages lang = dict_set lang (dict_get all_languages lang 0 + 1) all_languages"

text \<open>The histogram after the languages \<open>langs\<close> were recorded one after the other, starting
  from the empty dict.\<close>

definition language_histogram :: "'k list \<Rightarrow> 'k histogram" where
  "language_histogram langs = foldl record_language [] langs"

text \<open>
  \<open>sorted(xs, key=f, reverse=True)\<close>: Python's sort is stable, and with \<open>reverse=True\<close> the
  list is reversed, sorted stably in ascending order and reversed again, so that elements
  with equal keys keep their original order. \<^const>\<open>sort_key\<close> is a stable insertion sort.
\<close>

definition sorted_reverse :: "('a \<Rightarrow> 'b::linorder) \<Rightarrow> 'a list \<Rightarrow> 'a list" where
  "sorted_reverse f xs = rev (sort_key f (rev xs))"

record 'k skill =
  name :: 'k
  level :: int

text \<open>\<open>[{"name": lang, "level": min(count * 20, 100)} for lang, count in
  sorted(all_languages.items(), key=lambda x: x[1], reverse=True)]\<close>\<close>

definition skills_of :: "'k histogram \<Rightarrow> 'k skill list" where
  "skills_of all_languages =
     map (\<lambda>(lang, count). \<lparr>name = lang, level = min (count * 20) 100\<rparr>)
       (sorted_reverse snd all_languages)"

text \<open>Position of the first occurrence of \<open>x\<close> in \<open>xs\<close>.\<close>

definition first_seen :: "'k list \<Rightarrow> 'k \<Rightarrow> nat" where
  "first_seen xs x = length (takeWhile (\<lambda>y. y \<noteq> x) xs)"

section \<open>Intent detection and the saved artifact (app.py, lines 46-60, 95-100)\<close>





text \<open>
  \<open>ConversationState\<close> (the fields the portfolio path touches) and \<open>save_portfolio\<close>
  (lines 46-60). Python's \<open>not x\<close> holds of \<open>None\<close> and of the empty string. The disk is a
  map from paths to contents; \<open>PORTFOLIO_DIR / filename\<close> is the directory name, a slash and
  the file name (the file name holds no slash, the username pattern admits none).
\<close>

record conversation_state =
  generated_html :: "string option"
  current_username :: "string option"
  portfolio_path :: "string option"

definition save_portfolio ::
  "conversation_state \<Rightarrow> (string \<rightharpoonup> string) \<Rightarrow> conversation_state \<times> (string \<rightharpoonup> string) \<times> string option" where
  "save_portfolio st disk =
     (case (generated_html st, current_username st) of
        (Some html, Some username) \<Rightarrow>
          if html = [] \<or> username = [] then (st, disk, None)
          else (let filename = username @ ''_portfolio.html'';
                    file_path = ''generated_portfolios/'' @ filename
                in (st\<lparr>portfolio_path := Some file_path\<rparr>, disk(file_path \<mapsto> html), Some file_path))
      | _ \<Rightarrow> (st, disk, None))"


section \<open>Profile fetch: extraction and retry loop (app.py, lines 110-152)\<close>

text \<open>
  Values that \<open>json.loads\<close> returns: \<open>None\<close>, booleans, integers, strings, lists and
  dicts (floating-point numbers are left out). \<open>truthy\<close> is Python's truth value.
  Exceptions are values of \<open>error\<close>; a call that may raise returns \<open>error + 'a\<close>.
\<close>

datatype json = JNull | JBool bool | JInt int | JStr string | JList "json list"
  | JObj "(string \<times> json) list"

datatype error = AgentError string | JSONDecodeError string | ValueError string
  | NameError string | SyntaxError string | AttributeError string
  | ParserRejectedMarkup string

fun truthy :: "json \<Rightarrow> bool" where
  "truthy JNull = False"
| "truthy (JBool b) = b"
| "truthy (JInt n) = (n \<noteq> 0)"
| "truthy (JStr s) = (s \<noteq> [])"
| "truthy (JList xs) = (xs \<noteq> [])"
| "truthy (JObj kvs) = (kvs \<noteq> [])"

text \<open>
  \<open>re.search(r'```(?:json)?\n(.*?)\n```', data, re.DOTALL)\<close>, group 1. At one position the
  pattern needs three backquotes, then the optional tag (tried first with the tag, then
  without), a newline, the shortest body that is followed by a newline and three
  backquotes. \<open>re.search\<close> takes the leftmost position that matches. The same pattern with
  the tag \<open>html\<close> is used on the website and validation responses.
\<close>

definition fence_open :: "string \<Rightarrow> string \<Rightarrow> string option" where
  "fence_open tag s =
     (if prefix ''```'' s then
        (let r = drop 3 s in
         if prefix (tag @ ''\<newline>'') r then Some (drop (length tag + 1) r)
         else if prefix ''\<newline>'' r then Some (drop 1 r)
         else None)
      else None)"

fun lazy_until :: "string \<Rightarrow> string \<Rightarrow> string option" where
  "lazy_until close [] = (if close = [] then Some [] else None)"
| "lazy_until close (c # cs) =
     (if prefix close (c # cs) then Some []
      else map_option ((#) c) (lazy_until close cs))"

definition fence_at :: "string \<Rightarrow> string \<Rightarrow> string option" where
  "fence_at tag s = (case fence_open tag s of None \<Rightarrow> None
                     | Some r \<Rightarrow> lazy_until ''\<newline>```'' r)"

fun search_fence :: "string \<Rightarrow> string \<Rightarrow> string option" where
  "search_fence tag [] = None"
| "search_fence tag (c # cs) =
     (case fence_at tag (c # cs) of Some body \<Rightarrow> Some body | None \<Rightarrow> search_fence tag cs)"

text \<open>
  \<open>re.search(r'({.*})', data, re.DOTALL)\<close>: from the leftmost opening brace that has a closing
  brace after it, greedily up to the last closing brace of the text.
\<close>

definition greedy_until :: "char \<Rightarrow> string \<Rightarrow> string option" where
  "greedy_until c s =
     (let r = dropWhile (\<lambda>x. x \<noteq> c) (rev s) in if r = [] then None else Some (rev r))"

fun search_dict :: "string \<Rightarrow> string option" where
  "search_dict [] = None"
| "search_dict (c # cs) =
     (if c = CHR ''{'' then
        (case greedy_until (CHR ''}'') cs of Some b \<Rightarrow> Some (c # b) | None \<Rightarrow> search_dict cs)
      else search_dict cs)"

text \<open>\<open>re.sub(r"'", '"', s)\<close>: every single quote becomes a double quote.\<close>

definition sub_quotes :: "string \<Rightarrow> string" where
  "sub_quotes s = map (\<lambda>c. if c = CHR 0x27 then CHR 0x22 else c) s"

text \<open>
  Lines 121-133, the body of the \<open>try\<close> after the agent has answered with \<open>data\<close>. The
  parser \<open>json.loads\<close> is a parameter \<open>loads\<close>. The result is the new value of
  \<open>profile_data\<close>, which stays \<open>None\<close> (\<open>JNull\<close>) when neither pattern matches.
\<close>

definition extract_profile_json :: "(string \<Rightarrow> error + json) \<Rightarrow> string \<Rightarrow> error + json" where
  "extract_profile_json loads data =
     (case search_fence ''json'' data of
        Some profile_data_str \<Rightarrow> loads profile_data_str
      | None \<Rightarrow>
          (case search_dict data of
             Some profile_data_str \<Rightarrow> loads (sub_quotes profile_data_str)
           | None \<Rightarrow> Inr JNull))"

text \<open>
  The retry loop of lines 110-141. \<open>agent i\<close> is the outcome of the \<open>i\<close>-th call of
  \<open>github_agent.run\<close>: an exception or the response text. The status updates written to
  the chat history by the \<open>except\<close> branch are collected in a list. An attempt that neither
  raises nor sets \<open>profile_data\<close> repeats the loop without counting, so the loop need not
  end: it is a partial function, \<open>None\<close> meaning that it runs forever.
\<close>

definition max_retries :: nat where "max_retries = 3"

datatype status = RetryingProfileFetch nat nat | ErrorFetchingProfile nat error

definition profile_attempt :: "(string \<Rightarrow> error + json) \<Rightarrow> (error + string) \<Rightarrow> error + json" where
  "profile_attempt loads run = (case run of Inl e \<Rightarrow> Inl e | Inr data \<Rightarrow> extract_profile_json loads data)"

partial_function (option) fetch_profile_loop ::
  "(string \<Rightarrow> error + json) \<Rightarrow> (nat \<Rightarrow> error + string) \<Rightarrow> nat \<Rightarrow> nat \<Rightarrow> status list
     \<Rightarrow> (json \<times> status list) option" where
  "fetch_profile_loop loads agent i retry_count updates =
     (if retry_count < max_retries then
        (case profile_attempt loads (agent i) of
           Inl e \<Rightarrow>
             (if retry_count + 1 < max_retries
              then fetch_profile_loop loads agent (i + 1) (retry_count + 1)
                     (updates @ [RetryingProfileFetch (retry_count + 1) max_retries])
              else fetch_profile_loop loads agent (i + 1) (retry_count + 1)
                     (updates @ [ErrorFetchingProfile max_retries e]))
         | Inr profile_data \<Rightarrow>
             (if profile_data = JNull
              then fetch_profile_loop loads agent (i + 1) retry_count updates
              else Some (profile_data, updates)))
      else Some (JNull, updates))"

text \<open>Lines 143-152: a falsy \<open>profile_data\<close> is replaced by the basic profile.\<close>

definition basic_profile :: "string \<Rightarrow> json" where
  "basic_profile username =
     JObj [(''profile'', JObj [(''name'', JStr username), (''bio'', JStr ''GitHub User''),
                              (''avatar_url'', JStr (''https://github.com/'' @ username @ ''.png''))]),
           (''repos'', JList [])]"

definition fetch_profile ::
  "(string \<Rightarrow> error + json) \<Rightarrow> (nat \<Rightarrow> error + string) \<Rightarrow> string \<Rightarrow> (json \<times> status list) option" where
  "fetch_profile loads agent username =
     (case fetch_profile_loop loads agent 0 0 [] of
        None \<Rightarrow> None
      | Some (profile_data, updates) \<Rightarrow>
          Some (if truthy profile_data then profile_data else basic_profile username, updates))"

fun is_retrying :: "status \<Rightarrow> bool" where
  "is_retrying (RetryingProfileFetch _ _) = True"
| "is_retrying _ = False"

fun is_exhausted :: "status \<Rightarrow> bool" where
  "is_exhausted (ErrorFetchingProfile _ _) = True"
| "is_exhausted _ = False"

text \<open>An agent that raises on every call, and a parser that rejects every text.\<close>

definition agent_down :: "nat \<Rightarrow> error + string" where
  "agent_down i = Inl (AgentError ''unavailable'')"

definition no_loads :: "string \<Rightarrow> error + json" where
  "no_loads s = Inl (JSONDecodeError s)"






section \<open>CSS brace repair (main.py, lines 921-932)\<close>

text \<open>\<open>str(n)\<close> of a natural number, as the f-string formats it, and its inverse.\<close>

definition digit_char :: "nat \<Rightarrow> char" where
  "digit_char d = char_of (48 + d)"

function str_nat :: "nat \<Rightarrow> string" where
  "str_nat n = (if n < 10 then [digit_char n] else str_nat (n div 10) @ [digit_char (n mod 10)])"
  by pat_completeness auto
termination
  by (relation "measure id") auto

declare str_nat.simps [simp del]



text \<open>
  The loop over \<open>soup.find_all('style')\<close>. Of the document only the style tags matter
  here, each with its \<open>.string\<close>: the text of the tag, or \<open>None\<close> when the tag has no
  single text child. \<open>fix_style_tag\<close> is the loop body: the new \<open>.string\<close> and the entries
  appended to \<open>fixes_made\<close>.
\<close>

definition fix_style_tag :: "string option \<Rightarrow> string option \<times> string list" where
  "fix_style_tag style_string =
     (case style_string of
        None \<Rightarrow> (None, [])
      | Some css_content \<Rightarrow>
          if css_content = [] then (style_string, [])
          else
            (let open_braces = count_list css_content (CHR ''{'');
                 close_braces = count_list css_content (CHR ''}'')
             in if open_braces > close_braces
                then (Some (css_content @ ''\<newline>'' @ replicate (open_braces - close_braces) (CHR ''}'')),
                      [''Added '' @ str_nat (open_braces - close_braces)
                         @ '' missing CSS closing braces''])
                else (style_string, [])))"

fun fix_css_braces :: "string option list \<Rightarrow> string list \<Rightarrow> string option list \<times> string list" where
  "fix_css_braces [] fixes_made = ([], fixes_made)"
| "fix_css_braces (style_tag # rest) fixes_made =
     (case fix_style_tag style_tag of (style_tag', added) \<Rightarrow>
        (case fix_css_braces rest (fixes_made @ added) of (rest', fixes_made') \<Rightarrow>
           (style_tag' # rest', fixes_made')))"

text \<open>The number of closing braces a style tag lacks (zero when it lacks none).\<close>

definition brace_fix :: "string option \<Rightarrow> nat" where
  "brace_fix st = (case st of None \<Rightarrow> 0
     | Some css \<Rightarrow> count_list css (CHR ''{'') - count_list css (CHR ''}''))"

section \<open>The portfolio renderer (main.py, lines 220-834)\<close>

text \<open>
  The payload has the shape of the data model: a profile dict, a list of repository dicts
  and a list of skill dicts, absent parts replaced by the defaults of lines 234-236. The
  values in these dicts are \<open>None\<close>, integers or strings. \<open>d.get(k, v)\<close> is \<open>dict_get d k v\<close>.
\<close>

datatype pyval = PNone | PInt int | PStr string

type_synonym pydict = "(string \<times> pyval) list"

record payload =
  pd_profile :: pydict
  pd_repos :: "pydict list"
  pd_skills :: "pydict list"

fun truth_value :: "pyval \<Rightarrow> bool" where
  "truth_value PNone = False"
| "truth_value (PInt n) = (n \<noteq> 0)"
| "truth_value (PStr s) = (s \<noteq> [])"

text \<open>\<open>a or b\<close>\<close>

definition py_or :: "pyval \<Rightarrow> pyval \<Rightarrow> pyval" where
  "py_or a b = (if truth_value a then a else b)"

definition str_int :: "int \<Rightarrow> string" where
  "str_int n = (if n < 0 then ''-'' @ str_nat (nat (- n)) else str_nat (nat n))"

text \<open>\<open>str(v)\<close>, which is how an f-string formats \<open>{v}\<close>.\<close>

fun py_str :: "pyval \<Rightarrow> string" where
  "py_str PNone = ''None''"
| "py_str (PInt n) = str_int n"
| "py_str (PStr s) = s"

text \<open>
  Lines 247-252: \<open>sorted(repos, key=lambda x: x.get('stargazers_count', 0) or
  x.get('stars', 0), reverse=True)\<close> inside \<open>try\<close>, the \<open>except\<close> branch keeping the original
  order. Sorting two or more keys compares every key with another one, which raises
  \<open>TypeError\<close> unless all keys are integers or all are strings (strings are compared
  character by character).
\<close>

definition star_key :: "pydict \<Rightarrow> pyval" where
  "star_key x = py_or (dict_get x ''stargazers_count'' (PInt 0)) (dict_get x ''stars'' (PInt 0))"

fun is_int :: "pyval \<Rightarrow> bool" where
  "is_int (PInt _) = True"
| "is_int _ = False"

fun is_str :: "pyval \<Rightarrow> bool" where
  "is_str (PStr _) = True"
| "is_str _ = False"

fun int_of :: "pyval \<Rightarrow> int" where
  "int_of (PInt n) = n"
| "int_of _ = 0"

fun str_of :: "pyval \<Rightarrow> string" where
  "str_of (PStr s) = s"
| "str_of _ = []"

definition sorted_by_stars :: "pydict list \<Rightarrow> pydict list" where
  "sorted_by_stars repos =
     (if length repos \<le> 1 then repos
      else if list_all (\<lambda>x. is_int (star_key x)) repos
        then sorted_reverse (\<lambda>x. int_of (star_key x)) repos
      else if list_all (\<lambda>x. is_str (star_key x)) repos
        then sorted_reverse (\<lambda>x. str_of (star_key x)) repos
      else repos)"

text \<open>Lines 255-264: the skills derived from the repositories' languages when the payload
  brings none.\<close>

definition repo_languages :: "pydict list \<Rightarrow> pyval list" where
  "repo_languages repos = filter truth_value (map (\<lambda>repo. dict_get repo ''language'' PNone) repos)"

definition skills_from_repos :: "pydict list \<Rightarrow> pydict list" where
  "skills_from_repos repos =
     map (\<lambda>s. [(''name'', name s), (''level'', PInt (level s))])
       (skills_of (language_histogram (repo_languages repos)))"

definition language_colors :: "(string \<times> string) list" where
  "language_colors =
     [(''JavaScript'', ''#f1e05a''), (''TypeScript'', ''#2b7489''), (''Python'', ''#3572A5''),
      (''Java'', ''#b07219''), (''C#'', ''#178600''), (''PHP'', ''#4F5D95''), (''C++'', ''#f34b7d''),
      (''Ruby'', ''#701516''), (''Go'', ''#00ADD8''), (''Swift'', ''#ffac45''),
      (''Kotlin'', ''#F18E33''), (''Rust'', ''#dea584''), (''HTML'', ''#e34c26''),
      (''CSS'', ''#563d7c''), (''Shell'', ''#89e051'')]"

text \<open>\<open>language_colors.get(v, '#888')\<close>: only a string can be a key of that table.\<close>

definition language_color :: "pyval \<Rightarrow> string" where
  "language_color v = (case v of PStr s \<Rightarrow> dict_get language_colors s ''#888'' | _ \<Rightarrow> ''#888'')"

text \<open>Lines 684-699, the body of the loop over the skills.\<close>

definition skill_item_html :: "pydict \<Rightarrow> string" where
  \<open>skill_item_html skill =
     (let skill_name = dict_get skill ''name'' (PStr []);
          skill_level = dict_get skill ''level'' (PInt 50)
      in ''\<newline>''
        @ ''        <div class="skill-item">\<newline>''
        @ ''            <div class="skill-name">\<newline>''
        @ ''                <span class="language-dot" style="background-color: ''
        @ language_color skill_name
        @ ''"></span>\<newline>''
        @ ''                ''
        @ py_str skill_name
        @ ''\<newline>''
        @ ''            </div>\<newline>''
        @ ''            <div class="skill-bar">\<newline>''
        @ ''                <div class="skill-progress" style="width: ''
        @ py_str skill_level
        @ ''%"></div>\<newline>''
        @ ''            </div>\<newline>''
        @ ''        </div>\<newline>''
        @ ''        '')\<close>

text \<open>Lines 703-731, the body of the loop over \<open>repos[:6]\<close>; \<open>name\<close> is the profile's name.\<close>

definition repo_card_html :: "pyval \<Rightarrow> pydict \<Rightarrow> string" where
  \<open>repo_card_html profile_name repo =
     (let repo_name = dict_get repo ''name'' (PStr ''Repository'');
          description = py_or (dict_get repo ''description'' (PStr []))
                              (dict_get repo ''detailed_description'' (PStr []));
          language = dict_get repo ''language'' (PStr []);
          stars = py_or (dict_get repo ''stargazers_count'' (PInt 0)) (dict_get repo ''stars'' (PInt 0));
          forks = py_or (dict_get repo ''forks_count'' (PInt 0)) (dict_get repo ''forks'' (PInt 0));
          url = py_or (dict_get repo ''html_url'' (PStr []))
                  (PStr (''https://github.com/'' @ py_str profile_name @ ''/'' @ py_str repo_name));
          detailed = dict_get repo ''detailed_description'' (PStr []);
          detailed_desc = (if detailed = description then PStr [] else detailed)
      in ''\<newline>''
        @ ''        <div class="repo-card">\<newline>''
        @ ''            <h3 class="repo-name">''
        @ py_str repo_name
        @ ''</h3>\<newline>''
        @ ''            <p class="repo-description">''
        @ py_str description
        @ ''</p>\<newline>''
        @ ''            ''
        @ (if truth_value detailed_desc then ''<p><small>'' @ py_str detailed_desc @ ''</small></p>'' else [])
        @ ''\<newline>''
        @ ''            <div class="repo-meta">\<newline>''
        @ ''                ''
        @ (if truth_value language then ''<div class="repo-language"><span class="language-dot" style="background-color: '' @ language_color language @ ''"></span> '' @ py_str language @ ''</div>'' else [])
        @ ''\<newline>''
        @ ''                <div><i class="fas fa-star"></i> ''
        @ py_str stars
        @ ''</div>\<newline>''
        @ ''                <div><i class="fas fa-code-branch"></i> ''
        @ py_str forks
        @ ''</div>\<newline>''
        @ ''            </div>\<newline>''
        @ ''            <a href="''
        @ py_str url
        @ ''" class="repo-link" target="_blank">View Repository</a>\<newline>''
        @ ''        </div>\<newline>''
        @ ''        '')\<close>

definition repo_cards :: "pyval \<Rightarrow> pydict list \<Rightarrow> string list" where
  "repo_cards profile_name repos = map (repo_card_html profile_name) (take 6 repos)"

text \<open>The conditional blocks of lines 758-760 and 794-795.\<close>

definition contact_location :: "pyval \<Rightarrow> string" where
  \<open>contact_location location =
     (if truth_value location
      then ''<div class="contact-item"><i class="fas fa-map-marker-alt"></i> '' @ py_str location @ ''</div>''
      else [])\<close>

definition contact_blog :: "pyval \<Rightarrow> string" where
  \<open>contact_blog blog =
     (if truth_value blog
      then ''<div class="contact-item"><i class="fas fa-globe"></i> <a href="'' @ py_str blog
           @ ''" target="_blank">'' @ py_str blog @ ''</a></div>''
      else [])\<close>

definition contact_twitter :: "pyval \<Rightarrow> string" where
  \<open>contact_twitter twitter =
     (if truth_value twitter
      then ''<div class="contact-item"><i class="fab fa-twitter"></i> <a href="https://twitter.com/''
           @ py_str twitter @ ''" target="_blank">@'' @ py_str twitter @ ''</a></div>''
      else [])\<close>

definition footer_twitter :: "pyval \<Rightarrow> string" where
  \<open>footer_twitter twitter =
     (if truth_value twitter
      then ''<a href="https://twitter.com/'' @ py_str twitter
           @ ''" class="social-link" target="_blank"><i class="fab fa-twitter"></i></a>''
      else [])\<close>

definition footer_blog :: "pyval \<Rightarrow> string" where
  \<open>footer_blog blog =
     (if truth_value blog
      then ''<a href="'' @ py_str blog @ ''" class="social-link" target="_blank"><i class="fas fa-globe"></i></a>''
      else [])\<close>

text \<open>
  The local variables the template reads. \<open>l_css\<close> is the value of the stylesheet f-string
  of lines 298-680, a constant text (its fields look up keys of \<open>colors\<close> that exist), and
  \<open>l_year\<close> is what the clock would give for the current year.
\<close>

record locals =
  l_name :: pyval
  l_bio :: pyval
  l_avatar_url :: pyval
  l_location :: pyval
  l_blog :: pyval
  l_twitter :: pyval
  l_css :: string
  l_skills_html :: string
  l_repos_html :: string
  l_year :: int

definition renderer_locals :: "string \<Rightarrow> int \<Rightarrow> payload \<Rightarrow> locals" where
  "renderer_locals css year profile_data =
     (let profile = pd_profile profile_data;
          name = dict_get profile ''name'' (PStr ''GitHub User'');
          repos = sorted_by_stars (pd_repos profile_data);
          skills = (if pd_skills profile_data = [] then skills_from_repos repos
                    else pd_skills profile_data)
      in \<lparr>l_name = name,
          l_bio = dict_get profile ''bio'' (PStr ''Software Developer''),
          l_avatar_url = dict_get profile ''avatar_url'' (PStr []),
          l_location = dict_get profile ''location'' (PStr []),
          l_blog = dict_get profile ''blog'' (PStr []),
          l_twitter = dict_get profile ''twitter_username'' (PStr []),
          l_css = css,
          l_skills_html = concat (map skill_item_html skills),
          l_repos_html = concat (repo_cards name repos),
          l_year = year\<rparr>)"

text \<open>
  Name resolution inside \<open>generate_portfolio_website\<close>: a name is bound when the function
  assigns it or when the module binds it at top level (lines 1-18: the imports; then the
  classes, the agent and the functions). No builtin is called \<open>datetime\<close>.
\<close>

definition function_names :: "string list" where
  "function_names = [''ctx'', ''profile_data'', ''profile'', ''repos'', ''skills'', ''name'', ''bio'',
     ''avatar_url'', ''location'', ''blog'', ''twitter'', ''languages'', ''repo'', ''lang'', ''colors'',
     ''language_colors'', ''css'', ''skills_html'', ''skill'', ''skill_name'', ''skill_level'',
     ''lang_color'', ''repos_html'', ''repo_name'', ''description'', ''language'', ''stars'', ''forks'',
     ''url'', ''detailed_desc'', ''html'']"

definition module_names :: "string list" where
  "module_names = [''_annotations'', ''asyncio'', ''os'', ''re'', ''dataclass'', ''Any'', ''List'',
     ''Dict'', ''Optional'', ''logfire'', ''debug'', ''AsyncClient'', ''Agent'', ''ModelRetry'',
     ''RunContext'', ''load_dotenv'', ''html'', ''BeautifulSoup'', ''Deps'', ''github_agent'',
     ''fetch_repo_structure'', ''fetch_file_content'', ''fetch_github_profile'',
     ''generate_portfolio_website'', ''complete_html_structure'', ''main'']"

definition name_bound :: "string \<Rightarrow> bool" where
  "name_bound n = (n \<in> set function_names \<or> n \<in> set module_names)"

text \<open>
  The template of lines 734-830 is an f-string: literal text and replacement fields in
  braces. Python compiles every field as an expression when it compiles the file, and
  evaluates the fields from left to right when the string is built. The fields up to the
  footer are expressions. The script block of lines 801-828 is written with single braces,
  so the brace that opens the body of \<open>toggleDarkMode\<close> (line 802) starts a field, and what
  follows it (JavaScript statements, with semicolons) is no Python expression.
  \<open>html_template_head\<close> is the template up to that brace, \<open>script_block_rest\<close> the text
  after it.
\<close>

datatype segment = Lit string | Field "locals \<Rightarrow> error + string" | NotExpression string

text \<open>
  Why the text after the brace of line 802 is no expression: scanning it as a replacement
  field, outside quotes and before the field could end (at a closing brace, or at \<open>=\<close>,
  \<open>:\<close> or \<open>!\<close> outside brackets), a semicolon is met, and no Python expression holds a
  semicolon outside a string. \<open>separator_in_field depth quote s\<close> scans \<open>s\<close> with the current
  bracket depth and the quote that is open, if any.
\<close>

fun separator_in_field :: "nat \<Rightarrow> char option \<Rightarrow> string \<Rightarrow> bool" where
  "separator_in_field depth quote [] = False"
| "separator_in_field depth (Some q) (c # cs) =
     (if c = q then separator_in_field depth None cs else separator_in_field depth (Some q) cs)"
| "separator_in_field depth None (c # cs) =
     (if c = CHR 0x27 \<or> c = CHR 0x22 then separator_in_field depth (Some c) cs
      else if c = CHR '';'' then True
      else if c = CHR ''('' \<or> c = CHR ''['' \<or> c = CHR ''{'' then separator_in_field (Suc depth) None cs
      else if c = CHR '')'' \<or> c = CHR '']'' \<or> c = CHR ''}''
        then (case depth of 0 \<Rightarrow> False | Suc d \<Rightarrow> separator_in_field d None cs)
      else if depth = 0 \<and> (c = CHR ''='' \<or> c = CHR '':'' \<or> c = CHR ''!'') then False
      else separator_in_field depth None cs)"

definition html_template_head :: "segment list" where
  \<open>html_template_head = [
     Lit (''<!DOCTYPE html>\<newline>''
          @ ''<html lang="en">\<newline>''
          @ ''<head>\<newline>''
          @ ''    <meta charset="UTF-8">\<newline>''
          @ ''    <meta name="viewport" content="width=device-width, initial-scale=1.0">\<newline>''
          @ ''    <meta name="description" content="Portfolio website for ''),
     Field (\<lambda>l. Inr (py_str (l_name l))),
     Lit ('' - GitHub Developer">\<newline>''
          @ ''    <meta name="keywords" content="portfolio, github, developer, ''),
     Field (\<lambda>l. Inr (py_str (l_name l))),
     Lit (''">\<newline>''
          @ ''    <title>''),
     Field (\<lambda>l. Inr (py_str (l_name l))),
     Lit ('' - Portfolio</title>\<newline>''
          @ ''    <link rel="stylesheet" href="https://cdnjs.cloudflare.com/ajax/libs/font-awesome/6.4.0/css/all.min.css">\<newline>''
          @ ''    <style>''),
     Field (\<lambda>l. Inr (l_css l)),
     Lit (''</style>\<newline>''
          @ ''</head>\<newline>''
          @ ''<body>\<newline>''
          @ ''    <button class="theme-toggle" onclick="toggleDarkMode()">\<newline>''
          @ ''        <i class="fas fa-moon"></i>\<newline>''
          @ ''    </button>\<newline>''
          @ ''    \<newline>''
          @ ''    <header>\<newline>''
          @ ''        <div class="container">\<newline>''
          @ ''            <div class="header-content">\<newline>''
          @ ''                <img src="''),
     Field (\<lambda>l. Inr (py_str (l_avatar_url l))),
     Lit (''" alt="''),
     Field (\<lambda>l. Inr (py_str (l_name l))),
     Lit (''" class="profile-image">\<newline>''
          @ ''                <div class="profile-info">\<newline>''
          @ ''                    <h1>''),
     Field (\<lambda>l. Inr (py_str (l_name l))),
     Lit (''</h1>\<newline>''
          @ ''                    <p class="profile-bio">''),
     Field (\<lambda>l. Inr (py_str (l_bio l))),
     Lit (''</p>\<newline>''
          @ ''                    <div class="contact-info">\<newline>''
          @ ''                        ''),
     Field (\<lambda>l. Inr (contact_location (l_location l))),
     Lit (''\<newline>''
          @ ''                        ''),
     Field (\<lambda>l. Inr (contact_blog (l_blog l))),
     Lit (''\<newline>''
          @ ''                        ''),
     Field (\<lambda>l. Inr (contact_twitter (l_twitter l))),
     Lit (''\<newline>''
          @ ''                        <div class="contact-item"><i class="fab fa-github"></i> <a href="https://github.com/''),
     Field (\<lambda>l. Inr (py_str (l_name l))),
     Lit (''" target="_blank">GitHub</a></div>\<newline>''
          @ ''                    </div>\<newline>''
          @ ''                </div>\<newline>''
          @ ''            </div>\<newline>''
          @ ''        </div>\<newline>''
          @ ''    </header>\<newline>''
          @ ''    \<newline>''
          @ ''    <section id="skills">\<newline>''
          @ ''        <div class="container">\<newline>''
          @ ''            <h2 class="section-title">Skills</h2>\<newline>''
          @ ''            <div class="skills-grid">\<newline>''
          @ ''                ''),
     Field (\<lambda>l. Inr (if l_skills_html l \<noteq> [] then l_skills_html l else ''<p>No skills data available</p>'')),
     Lit (''\<newline>''
          @ ''            </div>\<newline>''
          @ ''        </div>\<newline>''
          @ ''    </section>\<newline>''
          @ ''    \<newline>''
          @ ''    <section id="projects">\<newline>''
          @ ''        <div class="container">\<newline>''
          @ ''            <h2 class="section-title">Featured Projects</h2>\<newline>''
          @ ''            <div class="repos-grid">\<newline>''
          @ ''                ''),
     Field (\<lambda>l. Inr (if l_repos_html l \<noteq> [] then l_repos_html l else ''<p>No repositories available</p>'')),
     Lit (''\<newline>''
          @ ''            </div>\<newline>''
          @ ''        </div>\<newline>''
          @ ''    </section>\<newline>''
          @ ''    \<newline>''
          @ ''    <footer>\<newline>''
          @ ''        <div class="container">\<newline>''
          @ ''            <div class="footer-content">\<newline>''
          @ ''                <p>&copy; ''),
     Field (\<lambda>l. if name_bound ''datetime'' then Inr (str_int (l_year l)) else Inl (NameError ''datetime'')),
     Lit ('' ''),
     Field (\<lambda>l. Inr (py_str (l_name l))),
     Lit ('' - GitHub Portfolio</p>\<newline>''
          @ ''                <div class="social-links">\<newline>''
          @ ''                    <a href="https://github.com/''),
     Field (\<lambda>l. Inr (py_str (l_name l))),
     Lit (''" class="social-link" target="_blank">\<newline>''
          @ ''                        <i class="fab fa-github"></i>\<newline>''
          @ ''                    </a>\<newline>''
          @ ''                    ''),
     Field (\<lambda>l. Inr (footer_twitter (l_twitter l))),
     Lit (''\<newline>''
          @ ''                    ''),
     Field (\<lambda>l. Inr (footer_blog (l_blog l))),
     Lit (''\<newline>''
          @ ''                </div>\<newline>''
          @ ''            </div>\<newline>''
          @ ''        </div>\<newline>''
          @ ''    </footer>\<newline>''
          @ ''    \<newline>''
          @ ''    <script>\<newline>''
          @ ''        function toggleDarkMode() '')]\<close>

definition script_block_rest :: string where
  \<open>script_block_rest =
     ''\<newline>''
     @ ''            document.body.classList.toggle('dark-mode');\<newline>''
     @ ''            const icon = document.querySelector('.theme-toggle i');\<newline>''
     @ ''            if (document.body.classList.contains('dark-mode')) {\<newline>''
     @ ''                icon.className = 'fas fa-sun';\<newline>''
     @ ''            } else {\<newline>''
     @ ''                icon.className = 'fas fa-moon';\<newline>''
     @ ''            }\<newline>''
     @ ''            localStorage.setItem('darkMode', document.body.classList.contains('dark-mode'));\<newline>''
     @ ''        }\<newline>''
     @ ''        \<newline>''
     @ ''        // Check for saved dark mode preference\<newline>''
     @ ''        document.addEventListener('DOMContentLoaded', function() {\<newline>''
     @ ''            if (localStorage.getItem('darkMode') === 'true') {\<newline>''
     @ ''                document.body.classList.add('dark-mode');\<newline>''
     @ ''                document.querySelector('.theme-toggle i').className = 'fas fa-sun';\<newline>''
     @ ''            }\<newline>''
     @ ''            \<newline>''
     @ ''            // Add animation classes with delay\<newline>''
     @ ''            const elements = document.querySelectorAll('.skill-item, .repo-card');\<newline>''
     @ ''            elements.forEach((el, index) => {\<newline>''
     @ ''                setTimeout(() => {\<newline>''
     @ ''                    el.classList.add('animated');\<newline>''
     @ ''                }, 100 + (index * 50));\<newline>''
     @ ''            });\<newline>''
     @ ''        });\<newline>''
     @ ''    </script>\<newline>''
     @ ''</body>\<newline>''
     @ ''</html>''\<close>

text \<open>The template as written, and the template with the script block's braces read as
  literal text (as they would be when doubled).\<close>

definition html_template :: "segment list" where
  "html_template = html_template_head @ [NotExpression script_block_rest]"

definition html_template_escaped :: "segment list" where
  "html_template_escaped = html_template_head @ [Lit (CHR ''{'' # script_block_rest)]"

fun is_expression :: "segment \<Rightarrow> bool" where
  "is_expression (NotExpression _) = False"
| "is_expression _ = True"

fun segment_value :: "segment \<Rightarrow> locals \<Rightarrow> error + string" where
  "segment_value (Lit s) l = Inr s"
| "segment_value (Field f) l = f l"
| "segment_value (NotExpression s) l = Inl (SyntaxError ''f-string: invalid syntax'')"

fun eval_fstring :: "segment list \<Rightarrow> locals \<Rightarrow> error + string" where
  "eval_fstring [] l = Inr []"
| "eval_fstring (s # segs) l =
     (case segment_value s l of
        Inl e \<Rightarrow> Inl e
      | Inr v \<Rightarrow> (case eval_fstring segs l of Inl e \<Rightarrow> Inl e | Inr w \<Rightarrow> Inr (v @ w)))"

text \<open>
  A function with the given template. A template that does not compile leaves the module
  without the function: every call fails with the compiler's \<open>SyntaxError\<close>, before
  anything is evaluated.
\<close>

definition render_with :: "segment list \<Rightarrow> string \<Rightarrow> int \<Rightarrow> payload \<Rightarrow> error + string" where
  "render_with template css year profile_data =
     (if \<not> list_all is_expression template then Inl (SyntaxError ''f-string: invalid syntax'')
      else eval_fstring template (renderer_locals css year profile_data))"

definition generate_portfolio_website :: "string \<Rightarrow> int \<Rightarrow> payload \<Rightarrow> error + string" where
  "generate_portfolio_website = render_with html_template"

definition generate_portfolio_website_escaped :: "string \<Rightarrow> int \<Rightarrow> payload \<Rightarrow> error + string" where
  "generate_portfolio_website_escaped = render_with html_template_escaped"

text \<open>
  The profile dict that \<open>fetch_github_profile\<close> returns (lines 194-205), built from the
  user object of the GitHub API: the handle is stored under the key \<open>twitter\<close>.
\<close>

definition github_profile :: "pydict \<Rightarrow> string \<Rightarrow> pydict" where
  "github_profile profile_data username =
     [(''name'', dict_get profile_data ''name'' (PStr username)),
      (''bio'', dict_get profile_data ''bio'' (PStr [])),
      (''avatar_url'', dict_get profile_data ''avatar_url'' (PStr [])),
      (''location'', dict_get profile_data ''location'' (PStr [])),
      (''blog'', dict_get profile_data ''blog'' (PStr [])),
      (''twitter'', dict_get profile_data ''twitter_username'' (PStr [])),
      (''followers'', dict_get profile_data ''followers'' (PInt 0)),
      (''following'', dict_get profile_data ''following'' (PInt 0)),
      (''public_repos'', dict_get profile_data ''public_repos'' (PInt 0))]"

text \<open>Example payloads: the scenario of the specification, and a user with a location, a
  blog and a handle as the GitHub API reports them.\<close>

definition ada_payload :: payload where
  "ada_payload = \<lparr>pd_profile = [(''name'', PStr ''ada''), (''bio'', PStr [])],
     pd_repos = [[(''name'', PStr ''x''), (''language'', PStr ''Rust''), (''stars'', PInt 10)]],
     pd_skills = []\<rparr>"

definition grace_api_user :: pydict where
  "grace_api_user = [(''name'', PStr ''Grace''), (''location'', PStr ''Arlington''),
     (''blog'', PStr ''https://grace.example''), (''twitter_username'', PStr ''grace'')]"

definition grace_payload :: payload where
  "grace_payload = \<lparr>pd_profile = github_profile grace_api_user ''grace'', pd_repos = [], pd_skills = []\<rparr>"

section \<open>Website generation, validation and normalisation (app.py, lines 279-409)\<close>

text \<open>\<open>s.strip()\<close>: leading and trailing white space removed (for ASCII: the characters
  9 to 13, 28 to 32).\<close>

definition is_space :: "char \<Rightarrow> bool" where
  "is_space c = ((9 \<le> (of_char c :: nat) \<and> (of_char c :: nat) \<le> 13) \<or>
                 (28 \<le> (of_char c :: nat) \<and> (of_char c :: nat) \<le> 32))"



















definition store_artifact ::
  "conversation_state \<Rightarrow> (string \<rightharpoonup> string) \<Rightarrow> string \<Rightarrow> conversation_state \<times> (string \<rightharpoonup> string) \<times> string option" where
  "store_artifact st disk html_content = save_portfolio (st\<lparr>generated_html := Some html_content\<rparr>) disk"



section \<open>HTML structural repair (main.py, lines 838-952)\<close>

text \<open>
  The document that \<open>BeautifulSoup(html_content, 'html.parser')\<close> builds is a list of nodes:
  a document type, a comment, a text, or a tag with its attributes and its children. The
  parser belongs to the library and not to the program: \<open>complete_html_structure\<close> takes it
  as the parameter \<open>parse\<close>, which returns the document or the exception it raises. What
  the program does with the document (searching, adding tags, \<open>str(soup)\<close>) is the
  library's documented behaviour, written out below. An attribute value is one text; for
  \<open>rel\<close>, which the library keeps as a list, it is the words joined by spaces.
\<close>

datatype node = Doctype string | Comment string | NavigableString string
  | Tag string "(string \<times> string) list" "node list"

text \<open>
  \<open>str(soup)\<close>, with the library's default formatter: in text and attribute values the
  characters \<open>&\<close>, \<open><\<close>, \<open>>\<close> become entities, except in the text of a \<open>script\<close> or \<open>style\<close>
  tag; the attributes of a tag are written in the order of their names; a tag without
  children whose name is one of the void tags of HTML is written \<open><name/>\<close>; a document type
  is followed by a newline.
\<close>

definition void_tags :: "string list" where
  "void_tags = [''area'', ''base'', ''br'', ''col'', ''embed'', ''hr'', ''img'', ''input'',
     ''keygen'', ''link'', ''menuitem'', ''meta'', ''param'', ''source'', ''track'', ''wbr'',
     ''basefont'', ''bgsound'', ''command'', ''frame'', ''image'', ''isindex'', ''nextid'',
     ''spacer'']"

definition substitute_char :: "char \<Rightarrow> string" where
  "substitute_char c =
     (if c = CHR ''&'' then ''&amp;''
      else if c = CHR ''<'' then ''&lt;''
      else if c = CHR ''>'' then ''&gt;''
      else [c])"

definition substitute_xml :: "string \<Rightarrow> string" where
  "substitute_xml s = concat (map substitute_char s)"

definition quoted_attribute_value :: "string \<Rightarrow> string" where
  "quoted_attribute_value v =
     (if CHR 0x22 \<in> set v
      then (if CHR 0x27 \<in> set v
            then [CHR 0x22] @ concat (map (\<lambda>c. if c = CHR 0x22 then ''&quot;'' else [c]) v) @ [CHR 0x22]
            else [CHR 0x27] @ v @ [CHR 0x27])
      else [CHR 0x22] @ v @ [CHR 0x22])"

definition decode_attribute :: "string \<times> string \<Rightarrow> string" where
  "decode_attribute kv = '' '' @ fst kv @ ''='' @ quoted_attribute_value (substitute_xml (snd kv))"

fun decode :: "string \<Rightarrow> node \<Rightarrow> string" where
  "decode parent (Doctype d) = ''<!DOCTYPE '' @ d @ ''>\<newline>''"
| "decode parent (Comment c) = ''<!--'' @ c @ ''-->''"
| "decode parent (NavigableString s) =
     (if parent = ''script'' \<or> parent = ''style'' then s else substitute_xml s)"
| "decode parent (Tag tag_name attrs contents) =
     ''<'' @ tag_name @ concat (map decode_attribute (sort_key fst attrs))
       @ (if contents = [] \<and> tag_name \<in> set void_tags then ''/>''
          else ''>'' @ concat (map (decode tag_name) contents) @ ''</'' @ tag_name @ ''>'')"

definition str_soup :: "node list \<Rightarrow> string" where
  "str_soup soup = concat (map (decode ''[document]'') soup)"

text \<open>
  \<open>soup.find(...)\<close>, and with it \<open>soup.html\<close>, \<open>soup.head\<close> and \<open>soup.body\<close>: the first tag in
  document order that matches. \<open>modify_first\<close> changes that tag in place; it is \<open>None\<close> when
  no tag matches.
\<close>

fun find_node :: "(node \<Rightarrow> bool) \<Rightarrow> node \<Rightarrow> node option"
  and find_first :: "(node \<Rightarrow> bool) \<Rightarrow> node list \<Rightarrow> node option" where
  "find_node P (Tag tag_name attrs contents) =
     (if P (Tag tag_name attrs contents) then Some (Tag tag_name attrs contents)
      else find_first P contents)"
| "find_node P (Doctype d) = None"
| "find_node P (Comment c) = None"
| "find_node P (NavigableString s) = None"
| "find_first P [] = None"
| "find_first P (n # ns) =
     (case find_node P n of Some t \<Rightarrow> Some t | None \<Rightarrow> find_first P ns)"

fun modify_node :: "(node \<Rightarrow> bool) \<Rightarrow> (node \<Rightarrow> node) \<Rightarrow> node \<Rightarrow> node option"
  and modify_first :: "(node \<Rightarrow> bool) \<Rightarrow> (node \<Rightarrow> node) \<Rightarrow> node list \<Rightarrow> node list option" where
  "modify_node P f (Tag tag_name attrs contents) =
     (if P (Tag tag_name attrs contents) then Some (f (Tag tag_name attrs contents))
      else (case modify_first P f contents of
              Some contents' \<Rightarrow> Some (Tag tag_name attrs contents')
            | None \<Rightarrow> None))"
| "modify_node P f (Doctype d) = None"
| "modify_node P f (Comment c) = None"
| "modify_node P f (NavigableString s) = None"
| "modify_first P f [] = None"
| "modify_first P f (n # ns) =
     (case modify_node P f n of
        Some n' \<Rightarrow> Some (n' # ns)
      | None \<Rightarrow> (case modify_first P f ns of
                   Some ns' \<Rightarrow> Some (n # ns')
                 | None \<Rightarrow> None))"

fun named :: "string \<Rightarrow> node \<Rightarrow> bool" where
  "named n (Tag tag_name attrs contents) = (tag_name = n)"
| "named n (Doctype d) = False"
| "named n (Comment c) = False"
| "named n (NavigableString s) = False"

text \<open>The words of an attribute value (the library splits \<open>rel\<close> at white space).\<close>

fun split_words :: "string \<Rightarrow> string \<Rightarrow> string list" where
  "split_words w [] = (if w = [] then [] else [w])"
| "split_words w (c # cs) =
     (if is_space c then (if w = [] then split_words [] cs else w # split_words [] cs)
      else split_words (w @ [c]) cs)"

text \<open>\<open>soup.find('link', attrs={'rel': 'stylesheet'})\<close> matches a link tag one of whose \<open>rel\<close>
  words is \<open>stylesheet\<close>.\<close>

fun stylesheet_link :: "node \<Rightarrow> bool" where
  "stylesheet_link (Tag tag_name attrs contents) =
     (tag_name = ''link'' \<and>
      (case map_of attrs ''rel'' of
         None \<Rightarrow> False
       | Some v \<Rightarrow> ''stylesheet'' \<in> set (split_words [] v)))"
| "stylesheet_link (Doctype d) = False"
| "stylesheet_link (Comment c) = False"
| "stylesheet_link (NavigableString s) = False"

text \<open>\<open>soup.find('link', attrs={'href': lambda x: x and 'font-awesome' in x.lower()})\<close>.\<close>

fun font_awesome_link :: "node \<Rightarrow> bool" where
  "font_awesome_link (Tag tag_name attrs contents) =
     (tag_name = ''link'' \<and>
      (case map_of attrs ''href'' of
         None \<Rightarrow> False
       | Some x \<Rightarrow> x \<noteq> [] \<and> sublist ''font-awesome'' (lower x)))"
| "font_awesome_link (Doctype d) = False"
| "font_awesome_link (Comment c) = False"
| "font_awesome_link (NavigableString s) = False"

text \<open>\<open>tag.append(child)\<close> and \<open>tag.insert(0, child)\<close>.\<close>

fun append_child :: "node \<Rightarrow> node \<Rightarrow> node" where
  "append_child child (Tag tag_name attrs contents) = Tag tag_name attrs (contents @ [child])"
| "append_child child n = n"

fun insert_first :: "node \<Rightarrow> node \<Rightarrow> node" where
  "insert_first child (Tag tag_name attrs contents) = Tag tag_name attrs (child # contents)"
| "insert_first child n = n"

text \<open>
  \<open>tag.string\<close>: the text of the only child, looked for through tags that themselves have
  one child only; \<open>None\<close> for a tag with no child or with several.
\<close>

fun tag_string :: "node \<Rightarrow> string option" where
  "tag_string (Tag tag_name attrs [child]) = tag_string child"
| "tag_string (Tag tag_name attrs []) = None"
| "tag_string (Tag tag_name attrs (c # d # contents)) = None"
| "tag_string (NavigableString s) = Some s"
| "tag_string (Comment s) = Some s"
| "tag_string (Doctype s) = Some s"

text \<open>Line 856: a document without an \<open>html\<close> tag is wrapped, as text.\<close>

definition wrap_document :: "string \<Rightarrow> string" where
  \<open>wrap_document fixed_html =
     ''<!DOCTYPE html>\<newline>''
       @ ''<html lang="en">\<newline>''
       @ ''<head>\<newline>''
       @ ''<meta charset="UTF-8">\<newline>''
       @ ''<title>Portfolio</title>\<newline>''
       @ ''</head>\<newline>''
       @ ''<body>\<newline>''
       @ fixed_html
       @ ''\<newline>''
       @ ''</body>\<newline>''
       @ ''</html>''\<close>

text \<open>Lines 862-875: the head that is put first into the \<open>html\<close> tag.\<close>

definition new_head :: node where
  "new_head = Tag ''head'' []
     [Tag ''meta'' [(''charset'', ''UTF-8'')] [],
      Tag ''title'' [] [NavigableString ''Portfolio'']]"

text \<open>
  Lines 878-887: every child of the \<open>html\<close> tag that is not a \<open>head\<close> tag moves into a new
  \<open>body\<close> tag, which becomes the last child. (Of a text or a comment \<open>content.name\<close> is
  \<open>None\<close>; a tag that equals \<open>soup.head\<close> has the name \<open>head\<close>, so the test of line 884 is
  \<open>content.name != 'head'\<close>.)
\<close>

fun add_body :: "node \<Rightarrow> node" where
  "add_body (Tag tag_name attrs contents) =
     Tag tag_name attrs (filter (named ''head'') contents
       @ [Tag ''body'' [] (filter (\<lambda>content. \<not> named ''head'' content) contents)])"
| "add_body n = n"

text \<open>Lines 895-905 and 914-917: the style tag and the link tag that are added to the head.\<close>

definition basic_css :: string where
  \<open>basic_css =
     ''\<newline>''
       @ ''            body {\<newline>''
       @ ''                font-family: -apple-system, BlinkMacSystemFont, 'Segoe UI', Roboto, sans-serif;\<newline>''
       @ ''                line-height: 1.6;\<newline>''
       @ ''                color: #333;\<newline>''
       @ ''                max-width: 1200px;\<newline>''
       @ ''                margin: 0 auto;\<newline>''
       @ ''                padding: 20px;\<newline>''
       @ ''            }\<newline>''
       @ ''            ''\<close>

definition new_style :: node where
  "new_style = Tag ''style'' [] [NavigableString basic_css]"

definition new_fa_link :: node where
  \<open>new_fa_link = Tag ''link''
     [(''rel'', ''stylesheet''),
      (''href'', ''https://cdnjs.cloudflare.com/ajax/libs/font-awesome/6.4.0/css/all.min.css'')] []\<close>

text \<open>
  Lines 921-932 on the document: the style tags are visited in document order, each
  one by \<open>fix_style_tag\<close>; a repaired tag gets its new text as its only child. (The parser
  reads the content of a style tag as text, so no style tag lies inside another.)
\<close>

fun fix_styles_node :: "node \<Rightarrow> node \<times> string list"
  and fix_styles :: "node list \<Rightarrow> node list \<times> string list" where
  "fix_styles_node (Tag tag_name attrs contents) =
     (if tag_name = ''style''
      then (case fix_style_tag (tag_string (Tag tag_name attrs contents)) of
              (Some css, e # es) \<Rightarrow> (Tag tag_name attrs [NavigableString css], e # es)
            | _ \<Rightarrow> (Tag tag_name attrs contents, []))
      else (case fix_styles contents of
              (contents', added) \<Rightarrow> (Tag tag_name attrs contents', added)))"
| "fix_styles_node (Doctype d) = (Doctype d, [])"
| "fix_styles_node (Comment c) = (Comment c, [])"
| "fix_styles_node (NavigableString s) = (NavigableString s, [])"
| "fix_styles [] = ([], [])"
| "fix_styles (n # ns) =
     (case fix_styles_node n of
        (n', added) \<Rightarrow> (case fix_styles ns of
                          (ns', added') \<Rightarrow> (n' # ns', added @ added')))"

text \<open>The \<open>.string\<close> of every style tag, in document order: what \<open>fix_css_braces\<close> works on.\<close>

fun style_strings_node :: "node \<Rightarrow> string option list"
  and style_strings :: "node list \<Rightarrow> string option list" where
  "style_strings_node (Tag tag_name attrs contents) =
     (if tag_name = ''style'' then [tag_string (Tag tag_name attrs contents)]
      else style_strings contents)"
| "style_strings_node (Doctype d) = []"
| "style_strings_node (Comment c) = []"
| "style_strings_node (NavigableString s) = []"
| "style_strings [] = []"
| "style_strings (n # ns) = style_strings_node n @ style_strings ns"

text \<open>
  The function, step by step. The state is the document, the text \<open>fixed_html\<close> and the
  list \<open>fixes_made\<close>. The result is the returned \<open>html\<close> with the entries of \<open>fixes_made\<close>
  (which the returned message joins with commas), or, when an exception is caught at
  line 946 (raised by the parser, or by \<open>head_tag.append\<close> when there is no head tag), the
  unchanged input with the exception.
\<close>

record repair_state =
  r_soup :: "node list"
  r_fixed_html :: string
  r_fixes_made :: "string list"

datatype repair = Repaired string "string list" | Failed string error

fun repaired_html :: "repair \<Rightarrow> string" where
  "repaired_html (Repaired html_text entries) = html_text"
| "repaired_html (Failed html_text e) = html_text"

fun fix_entries :: "repair \<Rightarrow> string list" where
  "fix_entries (Repaired html_text entries) = entries"
| "fix_entries (Failed html_text e) = []"

text \<open>Lines 853-890.\<close>

definition add_head :: "repair_state \<Rightarrow> repair_state" where
  "add_head st =
     (if find_first (named ''head'') (r_soup st) = None
      then (case modify_first (named ''html'') (insert_first new_head) (r_soup st) of
              None \<Rightarrow> st
            | Some soup' \<Rightarrow>
                st\<lparr>r_soup := soup', r_fixes_made := r_fixes_made st @ [''Added head tag'']\<rparr>)
      else st)"

definition add_body_tag :: "repair_state \<Rightarrow> repair_state" where
  "add_body_tag st =
     (if find_first (named ''body'') (r_soup st) = None
      then (case modify_first (named ''html'') add_body (r_soup st) of
              None \<Rightarrow> st
            | Some soup' \<Rightarrow>
                st\<lparr>r_soup := soup', r_fixes_made := r_fixes_made st @ [''Added body tag'']\<rparr>)
      else st)"

definition add_structure :: "(string \<Rightarrow> error + node list) \<Rightarrow> repair_state \<Rightarrow> error + repair_state" where
  "add_structure parse st =
     (if find_first (named ''html'') (r_soup st) = None
      then (case parse (wrap_document (r_fixed_html st)) of
              Inl e \<Rightarrow> Inl e
            | Inr soup' \<Rightarrow>
                Inr \<lparr>r_soup = soup',
                     r_fixed_html = wrap_document (r_fixed_html st),
                     r_fixes_made = r_fixes_made st @ [''Added basic HTML structure'']\<rparr>)
      else (let st' = add_body_tag (add_head st)
            in Inr (st'\<lparr>r_fixed_html := str_soup (r_soup st')\<rparr>)))"

text \<open>Lines 893-908. \<open>soup.head\<close> is \<open>None\<close> when the document has no head tag; then
  \<open>head_tag.append\<close> raises.\<close>

definition no_head :: error where
  "no_head = AttributeError ([CHR 0x27] @ ''NoneType'' @ [CHR 0x27]
     @ '' object has no attribute '' @ [CHR 0x27] @ ''append'' @ [CHR 0x27])"

definition add_basic_css :: "repair_state \<Rightarrow> error + repair_state" where
  "add_basic_css st =
     (if find_first (named ''style'') (r_soup st) = None
         \<and> find_first stylesheet_link (r_soup st) = None
      then (case modify_first (named ''head'') (append_child new_style) (r_soup st) of
              None \<Rightarrow> Inl no_head
            | Some soup' \<Rightarrow>
                Inr \<lparr>r_soup = soup', r_fixed_html = str_soup soup',
                     r_fixes_made = r_fixes_made st @ [''Added basic CSS'']\<rparr>)
      else Inr st)"

text \<open>Lines 911-919.\<close>

definition add_font_awesome :: "repair_state \<Rightarrow> error + repair_state" where
  "add_font_awesome st =
     (if sublist ''fa-'' (r_fixed_html st) \<and> find_first font_awesome_link (r_soup st) = None
      then (case modify_first (named ''head'') (append_child new_fa_link) (r_soup st) of
              None \<Rightarrow> Inl no_head
            | Some soup' \<Rightarrow>
                Inr \<lparr>r_soup = soup', r_fixed_html = str_soup soup',
                     r_fixes_made = r_fixes_made st @ [''Added Font Awesome link'']\<rparr>)
      else Inr st)"

text \<open>Lines 921-932: \<open>fixed_html\<close> is written again after every repaired style tag, so
  its last value is the text of the document after the loop.\<close>

definition close_css_braces :: "repair_state \<Rightarrow> repair_state" where
  "close_css_braces st =
     (case fix_styles (r_soup st) of
        (soup', added) \<Rightarrow>
          if added = [] then st
          else \<lparr>r_soup = soup', r_fixed_html = str_soup soup',
                r_fixes_made = r_fixes_made st @ added\<rparr>)"

text \<open>Lines 934-944.\<close>

definition finish_repair :: "string \<Rightarrow> repair_state \<Rightarrow> repair" where
  "finish_repair html_content st =
     (let fixes_made =
            (if length (r_fixed_html st) \<noteq> length html_content \<and> r_fixed_html st \<noteq> html_content
             then r_fixes_made st @ [''Fixed HTML structure and missing tags'']
             else r_fixes_made st)
      in Repaired (r_fixed_html st)
           (if fixes_made = [] then [''HTML structure is already valid''] else fixes_made))"

definition complete_html_structure :: "(string \<Rightarrow> error + node list) \<Rightarrow> string \<Rightarrow> repair" where
  "complete_html_structure parse html_content =
     (case parse html_content of
        Inl e \<Rightarrow> Failed html_content e
      | Inr soup \<Rightarrow>
          (case add_structure parse
                  \<lparr>r_soup = soup, r_fixed_html = str_soup soup, r_fixes_made = []\<rparr> of
             Inl e \<Rightarrow> Failed html_content e
           | Inr st \<Rightarrow>
               (case add_basic_css st of
                  Inl e \<Rightarrow> Failed html_content e
                | Inr st' \<Rightarrow>
                    (case add_font_awesome st' of
                       Inl e \<Rightarrow> Failed html_content e
                     | Inr st'' \<Rightarrow> finish_repair html_content (close_css_braces st'')))))"

text \<open>
  A document that needs no addition: none of the steps of lines 853-932 changes it.
\<close>

definition complete_document :: "node list \<Rightarrow> bool" where
  "complete_document soup =
     (find_first (named ''html'') soup \<noteq> None
      \<and> find_first (named ''head'') soup \<noteq> None
      \<and> find_first (named ''body'') soup \<noteq> None
      \<and> (find_first (named ''style'') soup \<noteq> None \<or> find_first stylesheet_link soup \<noteq> None)
      \<and> (sublist ''fa-'' (str_soup soup) \<longrightarrow> find_first font_awesome_link soup \<noteq> None)
      \<and> snd (fix_styles soup) = [])"

text \<open>
  An input for two runs: one style tag and nothing else. \<open>html_parser_table\<close> agrees with
  the library's parser on the two texts that the runs parse, the input and the wrapped
  input.
\<close>

definition style_only :: string where
  "style_only = ''<style>a{}</style>''"

definition html_parser_table :: "string \<Rightarrow> error + node list" where
  "html_parser_table s =
     (if s = style_only then Inr [Tag ''style'' [] [NavigableString ''a{}'']]
      else if s = wrap_document style_only then
        Inr [Doctype ''html'', NavigableString ''\<newline>'',
         Tag ''html'' [(''lang'', ''en'')]
           [NavigableString ''\<newline>'',
            Tag ''head'' []
              [NavigableString ''\<newline>'',
               Tag ''meta'' [(''charset'', ''UTF-8'')] [],
               NavigableString ''\<newline>'',
               Tag ''title'' [] [NavigableString ''Portfolio''],
               NavigableString ''\<newline>''],
            NavigableString ''\<newline>'',
            Tag ''body'' []
              [NavigableString ''\<newline>'',
               Tag ''style'' [] [NavigableString ''a{}''],
               NavigableString ''\<newline>''],
            NavigableString ''\<newline>'']]
      else Inl (ParserRejectedMarkup s))"

definition wrapped_document :: "node list" where
  "wrapped_document = (case html_parser_table (wrap_document style_only) of
     Inr soup \<Rightarrow> soup | Inl e \<Rightarrow> [])"

section \<open>Histogram lemmas\<close>

lemma map_of_dict_set: "map_of (dict_set k v d) = (map_of d)(k \<mapsto> v)"
  by (induction d) (auto simp: fun_eq_iff)

lemma dict_set_known: "k \<in> fst ` set d \<Longrightarrow> map fst (dict_set k v d) = map fst d"
  by (induction d) auto

lemma dict_set_new: "k \<notin> fst ` set d \<Longrightarrow> dict_set k v d = d @ [(k, v)]"
  by (induction d) auto

lemma set_dict_set: "set (dict_set k v d) \<subseteq> insert (k, v) (set d)"
  by (induction d) auto

lemma keys_set_dict_set: "fst ` set (dict_set k v d) = insert k (fst ` set d)"
  by (induction d) auto

lemma language_histogram_snoc:
  "language_histogram (ls @ [l]) = record_language (language_histogram ls) l"
  by (simp add: language_histogram_def)

lemma keys_language_histogram: "fst ` set (language_histogram ls) = set ls"
proof (induction ls rule: rev_induct)
  case Nil
  show ?case by (simp add: language_histogram_def)
next
  case (snoc l ls)
  then show ?case
    by (simp add: language_histogram_snoc record_language_def keys_set_dict_set)
qed

lemma distinct_language_histogram: "distinct (map fst (language_histogram ls))"
proof (induction ls rule: rev_induct)
  case Nil
  show ?case by (simp add: language_histogram_def)
next
  case (snoc l ls)
  show ?case
  proof (cases "l \<in> fst ` set (language_histogram ls)")
    case True
    with snoc show ?thesis
      by (simp only: language_histogram_snoc record_language_def dict_set_known)
  next
    case False
    with snoc show ?thesis
      by (simp add: language_histogram_snoc record_language_def dict_set_new)
  qed
qed

lemma map_of_language_histogram:
  "map_of (language_histogram ls) k = (if k \<in> set ls then Some (int (count_list ls k)) else None)"
proof (induction ls arbitrary: k rule: rev_induct)
  case Nil
  show ?case by (simp add: language_histogram_def)
next
  case (snoc l ls)
  show ?case
    by (simp add: language_histogram_snoc record_language_def map_of_dict_set dict_get_def snoc)
qed

lemma count_language_histogram:
  assumes "(k, c) \<in> set (language_histogram ls)"
  shows "c = int (count_list ls k)"
proof -
  have "map_of (language_histogram ls) k = Some c"
    using assms distinct_language_histogram [of ls] by simp
  then show ?thesis
    by (simp add: map_of_language_histogram split: if_splits)
qed

lemma first_seen_snoc:
  "first_seen (ls @ [l]) k = (if k \<in> set ls then first_seen ls k else if k = l then length ls else Suc (length ls))"
  unfolding first_seen_def by (induction ls) auto

lemma first_seen_less: "k \<in> set ls \<Longrightarrow> first_seen ls k < length ls"
  by (induction ls) (auto simp: first_seen_def)

lemma order_language_histogram:
  "sorted_wrt (\<lambda>a b. first_seen ls a < first_seen ls b) (map fst (language_histogram ls))"
proof (induction ls rule: rev_induct)
  case Nil
  show ?case by (simp add: language_histogram_def)
next
  case (snoc l ls)
  let ?h = "language_histogram ls"
  have keys: "fst ` set ?h = set ls" by (rule keys_language_histogram)
  have old: "sorted_wrt (\<lambda>a b. first_seen (ls @ [l]) a < first_seen (ls @ [l]) b) (map fst ?h)"
  proof (rule sorted_wrt_mono_rel [OF _ snoc])
    fix a b assume a: "a \<in> set (map fst ?h)" and b: "b \<in> set (map fst ?h)"
      and ab: "first_seen ls a < first_seen ls b"
    from a b keys have "a \<in> set ls" "b \<in> set ls" by auto
    with ab show "first_seen (ls @ [l]) a < first_seen (ls @ [l]) b"
      by (simp add: first_seen_snoc)
  qed
  show ?case
  proof (cases "l \<in> set ls")
    case True
    with keys have "map fst (dict_set l v ?h) = map fst ?h" for v :: int
      by (simp add: dict_set_known)
    with old show ?thesis
      by (simp only: language_histogram_snoc record_language_def)
  next
    case False
    with keys have "dict_set l v ?h = ?h @ [(l, v)]" for v :: int
      by (simp add: dict_set_new)
    moreover have "first_seen (ls @ [l]) a < first_seen (ls @ [l]) l" if "a \<in> set (map fst ?h)" for a
    proof -
      from that keys have "a \<in> set ls" by auto
      with False first_seen_less [of a ls] show ?thesis by (simp add: first_seen_snoc)
    qed
    ultimately show ?thesis
      using old by (simp add: language_histogram_snoc record_language_def sorted_wrt_append)
  qed
qed

lemma insort_key_stable_lex:
  fixes f :: "'a \<Rightarrow> 'b::linorder"
  assumes "sorted_wrt (\<lambda>a b. f a < f b \<or> (f a = f b \<and> R a b)) ys"
    and "\<forall>y\<in>set ys. R x y"
  shows "sorted_wrt (\<lambda>a b. f a < f b \<or> (f a = f b \<and> R a b)) (insort_key f x ys)"
  using assms
proof (induction ys)
  case Nil
  then show ?case by simp
next
  case (Cons y ys)
  show ?case
  proof (cases "f x \<le> f y")
    case True
    have "f x < f z \<or> (f x = f z \<and> R x z)" if "z \<in> set (y # ys)" for z
    proof -
      have "f y \<le> f z" using that Cons.prems(1) by auto
      with True have "f x \<le> f z" by simp
      moreover have "R x z" using that Cons.prems(2) by auto
      ultimately show ?thesis by auto
    qed
    with True Cons.prems(1) show ?thesis by simp
  next
    case False
    have "sorted_wrt (\<lambda>a b. f a < f b \<or> (f a = f b \<and> R a b)) (insort_key f x ys)"
      using Cons by simp
    moreover have "f y < f z \<or> (f y = f z \<and> R y z)" if "z \<in> set (insort_key f x ys)" for z
    proof -
      from that have "z = x \<or> z \<in> set ys" by (simp add: set_insort_key)
      with False Cons.prems(1) show ?thesis by auto
    qed
    ultimately show ?thesis using False by simp
  qed
qed

lemma sort_key_stable_lex:
  fixes f :: "'a \<Rightarrow> 'b::linorder"
  assumes "sorted_wrt R xs"
  shows "sorted_wrt (\<lambda>a b. f a < f b \<or> (f a = f b \<and> R a b)) (sort_key f xs)"
  using assms
proof (induction xs)
  case Nil
  then show ?case by simp
next
  case (Cons x xs)
  then show ?case
    by (simp add: insort_key_stable_lex)
qed

lemma sorted_reverse_stable_lex:
  fixes f :: "'a \<Rightarrow> 'b::linorder"
  assumes "sorted_wrt R xs"
  shows "sorted_wrt (\<lambda>a b. f a > f b \<or> (f a = f b \<and> R a b)) (sorted_reverse f xs)"
proof -
  from assms have "sorted_wrt (\<lambda>a b. R b a) (rev xs)" by (simp add: sorted_wrt_rev)
  then have "sorted_wrt (\<lambda>a b. f a < f b \<or> (f a = f b \<and> R b a)) (sort_key f (rev xs))"
    by (rule sort_key_stable_lex)
  then have "sorted_wrt (\<lambda>a b. f b < f a \<or> (f b = f a \<and> R a b)) (rev (sort_key f (rev xs)))"
    by (simp add: sorted_wrt_rev)
  then show ?thesis
    unfolding sorted_reverse_def by (rule sorted_wrt_mono_rel [rotated]) auto
qed

lemma set_sorted_reverse: "set (sorted_reverse f xs) = set xs"
  by (simp add: sorted_reverse_def)

lemma length_sorted_reverse: "length (sorted_reverse f xs) = length xs"
  by (simp add: sorted_reverse_def)

section \<open>Lemmas on lower-casing and the username pattern\<close>

lemma of_char_lower_char:
  "of_char (lower_char c) = (if is_upper c then of_char c + 32 else (of_char c :: nat))"
  by (simp add: lower_char_def is_upper_def)

lemma not_upper_lower_char: "\<not> is_upper (lower_char c)"
  by (simp add: is_upper_def of_char_lower_char)

lemma lower_char_idem: "\<not> is_upper c \<Longrightarrow> lower_char c = c"
  by (simp add: lower_char_def)

lemma lower_idem: "lower (lower s) = lower s"
  by (simp add: lower_def lower_char_idem not_upper_lower_char)


section \<open>Lemmas on the regular-expression searches\<close>












lemma fetch_profile_loop_failing:
  assumes "\<And>i. profile_attempt loads (agent i) = Inl (err i)"
  shows "fetch_profile_loop loads agent 0 0 [] =
     Some (JNull, [RetryingProfileFetch 1 3, RetryingProfileFetch 2 3, ErrorFetchingProfile 3 (err 2)])"
proof -
  have 3: "fetch_profile_loop loads agent i (Suc (Suc (Suc 0))) u = Some (JNull, u)" for i u
    by (subst fetch_profile_loop.simps) (simp add: max_retries_def)
  have 2: "fetch_profile_loop loads agent i (Suc (Suc 0)) u =
      Some (JNull, u @ [ErrorFetchingProfile 3 (err i)])" for i u
    by (subst fetch_profile_loop.simps) (simp add: max_retries_def assms 3)
  have 1: "fetch_profile_loop loads agent i (Suc 0) u =
      Some (JNull, u @ [RetryingProfileFetch 2 3, ErrorFetchingProfile 3 (err (Suc i))])" for i u
    by (subst fetch_profile_loop.simps) (simp add: max_retries_def assms 2 numeral_2_eq_2)
  have 0: "fetch_profile_loop loads agent i 0 u =
      Some (JNull, u @ [RetryingProfileFetch 1 3, RetryingProfileFetch 2 3,
                        ErrorFetchingProfile 3 (err (Suc (Suc i)))])" for i u
    by (subst fetch_profile_loop.simps) (simp add: max_retries_def assms 1)
  show ?thesis by (simp add: 0 [of 0] numeral_2_eq_2)
qed

section \<open>Lemmas on the brace repair\<close>





lemma fix_css_braces_map:
  "fix_css_braces styles made =
     (map (\<lambda>st. fst (fix_style_tag st)) styles,
      made @ concat (map (\<lambda>st. snd (fix_style_tag st)) styles))"
  by (induction styles arbitrary: made) (auto split: prod.splits)


lemma fix_style_tag_eq:
  "fix_style_tag st =
     (if brace_fix st = 0 then (st, [])
      else (Some (the st @ ''\<newline>'' @ replicate (brace_fix st) (CHR ''}'')),
            [''Added '' @ str_nat (brace_fix st) @ '' missing CSS closing braces'']))"
  by (cases st) (auto simp: fix_style_tag_def brace_fix_def Let_def)

section \<open>Lemmas on \<open>str.replace\<close>\<close>










section \<open>Lemmas on the normalisation\<close>



























section \<open>Lemmas on the renderer\<close>

lemma head_expressions: "list_all is_expression html_template_head"
  by (simp add: html_template_head_def)

lemma script_block_no_expression: "separator_in_field 0 None script_block_rest"
  by code_simp

lemma datetime_unbound: "\<not> name_bound ''datetime''"
  by (simp add: name_bound_def function_names_def module_names_def)

lemma eval_head_fails:
  "eval_fstring (html_template_head @ rest) l = Inl (NameError ''datetime'')"
  by (simp add: html_template_head_def datetime_unbound)

lemma render_as_written:
  "generate_portfolio_website css year pd = Inl (SyntaxError ''f-string: invalid syntax'')"
  by (simp add: generate_portfolio_website_def render_with_def html_template_def)

lemma render_escaped:
  "generate_portfolio_website_escaped css year pd = Inl (NameError ''datetime'')"
  by (simp add: generate_portfolio_website_escaped_def render_with_def html_template_escaped_def
      head_expressions eval_head_fails)

lemma length_sorted_by_stars: "length (sorted_by_stars repos) = length repos"
  by (simp add: sorted_by_stars_def length_sorted_reverse)

lemma set_sorted_by_stars: "set (sorted_by_stars repos) = set repos"
  by (simp add: sorted_by_stars_def set_sorted_reverse)

lemma twitter_key_unread:
  "dict_get (github_profile api_user username) ''twitter_username'' (PStr []) = PStr []"
  by (simp add: github_profile_def dict_get_def)

section \<open>Lemmas on the HTML structural repair\<close>

text \<open>
  The loop over the style tags of a document is \<open>fix_css_braces\<close> on the \<open>.string\<close> values
  of these tags (\<open>fix_styles_as_list\<close>); every entry it records starts with "Added".
\<close>

lemma fix_styles_strings:
  "style_strings_node (fst (fix_styles_node n)) = map (\<lambda>st. fst (fix_style_tag st)) (style_strings_node n)
     \<and> snd (fix_styles_node n) = concat (map (\<lambda>st. snd (fix_style_tag st)) (style_strings_node n))"
  "style_strings (fst (fix_styles ns)) = map (\<lambda>st. fst (fix_style_tag st)) (style_strings ns)
     \<and> snd (fix_styles ns) = concat (map (\<lambda>st. snd (fix_style_tag st)) (style_strings ns))"
proof (induction n and ns rule: fix_styles_node_fix_styles.induct)
  case (1 tag_name attrs contents)
  show ?case
  proof (cases "tag_name = ''style''")
    case True
    then show ?thesis
      by (auto simp: fix_style_tag_eq [of "tag_string (Tag ''style'' attrs contents)"] brace_fix_def
            split: option.splits)
  next
    case False
    with 1 show ?thesis by (auto split: prod.splits)
  qed
qed (auto split: prod.splits)

lemma fix_styles_as_list:
  "fix_css_braces (style_strings soup) made =
     (style_strings (fst (fix_styles soup)), made @ snd (fix_styles soup))"
  by (simp add: fix_css_braces_map fix_styles_strings)

lemma fix_styles_added: "list_all (prefix ''Added '') (snd (fix_styles soup))"
proof -
  have "list_all (prefix ''Added '') (concat (map (\<lambda>st. snd (fix_style_tag st)) xs))" for xs
    by (induction xs) (simp_all add: fix_style_tag_eq)
  then show ?thesis by (simp add: fix_styles_strings)
qed

lemma modify_first_None:
  "(modify_node P f n = None) = (find_node P n = None)"
  "(modify_first P f ns = None) = (find_first P ns = None)"
  by (induction P f n and P f ns rule: modify_node_modify_first.induct)
     (auto split: option.splits)

lemma add_head_fixes:
  "add_head st = st \<or> r_fixes_made (add_head st) = r_fixes_made st @ [''Added head tag'']"
  by (simp add: add_head_def split: option.splits)

lemma add_head_found:
  "find_first (named ''head'') (r_soup st) \<noteq> None \<Longrightarrow> add_head st = st"
  by (auto simp: add_head_def)

lemma add_head_missing:
  "find_first (named ''html'') (r_soup st) \<noteq> None \<Longrightarrow> find_first (named ''head'') (r_soup st) = None
     \<Longrightarrow> r_fixes_made (add_head st) = r_fixes_made st @ [''Added head tag'']"
  by (auto simp: add_head_def modify_first_None split: option.splits)

lemma add_body_tag_fixes:
  "add_body_tag st = st \<or> r_fixes_made (add_body_tag st) = r_fixes_made st @ [''Added body tag'']"
  by (simp add: add_body_tag_def split: option.splits)

lemma add_body_tag_found:
  "find_first (named ''body'') (r_soup st) \<noteq> None \<Longrightarrow> add_body_tag st = st"
  by (auto simp: add_body_tag_def)

lemma add_body_tag_missing:
  "find_first (named ''html'') (r_soup st) \<noteq> None \<Longrightarrow> find_first (named ''body'') (r_soup st) = None
     \<Longrightarrow> r_fixes_made (add_body_tag st) = r_fixes_made st @ [''Added body tag'']"
  by (auto simp: add_body_tag_def modify_first_None split: option.splits)

lemma add_structure_added:
  "add_structure parse st = Inr st' \<Longrightarrow>
   \<exists>es. r_fixes_made st' = r_fixes_made st @ es \<and> list_all (prefix ''Added '') es"
proof (cases "find_first (named ''html'') (r_soup st) = None")
  case True
  assume "add_structure parse st = Inr st'"
  with True show ?thesis by (auto simp: add_structure_def split: sum.splits)
next
  case False
  assume a: "add_structure parse st = Inr st'"
  have "\<exists>es. r_fixes_made (add_body_tag (add_head st)) = r_fixes_made st @ es \<and> list_all (prefix ''Added '') es"
    using add_head_fixes [of st] add_body_tag_fixes [of "add_head st"] by auto
  with False a show ?thesis by (auto simp: add_structure_def Let_def)
qed

lemma add_structure_unchanged:
  assumes "add_structure parse st = Inr st'"
  shows "(r_fixes_made st' = r_fixes_made st) =
     (find_first (named ''html'') (r_soup st) \<noteq> None
      \<and> find_first (named ''head'') (r_soup st) \<noteq> None
      \<and> find_first (named ''body'') (r_soup st) \<noteq> None)"
proof (cases "find_first (named ''html'') (r_soup st) = None")
  case True
  with assms show ?thesis by (auto simp: add_structure_def split: sum.splits)
next
  case html: False
  with assms have f: "r_fixes_made st' = r_fixes_made (add_body_tag (add_head st))"
    by (auto simp: add_structure_def Let_def)
  show ?thesis
  proof (cases "find_first (named ''head'') (r_soup st) = None")
    case True
    from add_head_missing [OF html True] add_body_tag_fixes [of "add_head st"]
    have "r_fixes_made (add_body_tag (add_head st)) \<noteq> r_fixes_made st" by auto
    with html True f show ?thesis by simp
  next
    case head: False
    then have h: "add_head st = st" by (simp add: add_head_found)
    show ?thesis
    proof (cases "find_first (named ''body'') (r_soup st) = None")
      case True
      from add_body_tag_missing [OF html True] html head True h f show ?thesis by simp
    next
      case False
      with html head h f show ?thesis by (simp add: add_body_tag_found)
    qed
  qed
qed

lemma add_structure_same:
  "find_first (named ''html'') (r_soup st) \<noteq> None \<Longrightarrow>
   find_first (named ''head'') (r_soup st) \<noteq> None \<Longrightarrow>
   find_first (named ''body'') (r_soup st) \<noteq> None \<Longrightarrow>
   add_structure parse st = Inr (st\<lparr>r_fixed_html := str_soup (r_soup st)\<rparr>)"
  by (auto simp: add_structure_def Let_def add_head_found add_body_tag_found)

lemma add_basic_css_added:
  "add_basic_css st = Inr st' \<Longrightarrow>
     (find_first (named ''style'') (r_soup st) \<noteq> None \<or> find_first stylesheet_link (r_soup st) \<noteq> None) \<and> st' = st
     \<or> (find_first (named ''style'') (r_soup st) = None \<and> find_first stylesheet_link (r_soup st) = None)
        \<and> r_fixes_made st' = r_fixes_made st @ [''Added basic CSS'']"
  by (auto simp: add_basic_css_def split: if_splits option.splits)

lemma add_font_awesome_added:
  "add_font_awesome st = Inr st' \<Longrightarrow>
     (sublist ''fa-'' (r_fixed_html st) \<longrightarrow> find_first font_awesome_link (r_soup st) \<noteq> None) \<and> st' = st
     \<or> (sublist ''fa-'' (r_fixed_html st) \<and> find_first font_awesome_link (r_soup st) = None)
        \<and> r_fixes_made st' = r_fixes_made st @ [''Added Font Awesome link'']"
  by (auto simp: add_font_awesome_def split: if_splits option.splits)

lemma close_css_braces_added:
  "snd (fix_styles (r_soup st)) = [] \<and> close_css_braces st = st
   \<or> snd (fix_styles (r_soup st)) \<noteq> []
      \<and> r_fixes_made (close_css_braces st) = r_fixes_made st @ snd (fix_styles (r_soup st))
      \<and> r_fixed_html (close_css_braces st) = str_soup (r_soup (close_css_braces st))"
  by (auto simp: close_css_braces_def split: prod.splits)


lemma finish_repair_entries:
  assumes "list_all (prefix ''Added '') (r_fixes_made st)"
    and "finish_repair html_content st = Repaired fixed fixes"
  shows "fixed = r_fixed_html st
    \<and> (fixes = [''HTML structure is already valid'']) =
        (r_fixes_made st = [] \<and> length fixed = length html_content)
    \<and> (''Fixed HTML structure and missing tags'' \<in> set fixes) =
        (length fixed \<noteq> length html_content)"
proof -
  have a: "\<not> prefix ''Added '' ''HTML structure is already valid''"
    and b: "\<not> prefix ''Added '' ''Fixed HTML structure and missing tags''"
    by simp_all
  from assms(1) a b
  have n: "''HTML structure is already valid'' \<notin> set (r_fixes_made st)"
    "''Fixed HTML structure and missing tags'' \<notin> set (r_fixes_made st)"
    unfolding list_all_iff by blast+
  have f: "fixed = r_fixed_html st" using assms(2) by (simp add: finish_repair_def Let_def)
  show ?thesis
  proof (cases "length (r_fixed_html st) = length html_content")
    case True
    with assms(2) have "fixes = (if r_fixes_made st = [] then [''HTML structure is already valid''] else r_fixes_made st)"
      by (simp add: finish_repair_def Let_def)
    with n True f show ?thesis by (cases "r_fixes_made st") auto
  next
    case False
    then have "r_fixed_html st \<noteq> html_content" by auto
    with False assms(2) have "fixes = r_fixes_made st @ [''Fixed HTML structure and missing tags'']"
      by (simp add: finish_repair_def Let_def)
    with n False f show ?thesis by (cases "r_fixes_made st") auto
  qed
qed

lemma repair_chain:
  assumes p: "parse html_content = Inr soup"
    and "complete_html_structure parse html_content = Repaired fixed fixes"
  shows "\<exists>st. finish_repair html_content st = Repaired fixed fixes
    \<and> list_all (prefix ''Added '') (r_fixes_made st)
    \<and> (r_fixes_made st = []) = complete_document soup
    \<and> (complete_document soup \<longrightarrow> r_fixed_html st = str_soup soup)"
proof -
  define st0 where "st0 = \<lparr>r_soup = soup, r_fixed_html = str_soup soup, r_fixes_made = []\<rparr>"
  from assms obtain st1 st2 st3 where s: "add_structure parse st0 = Inr st1"
    and c: "add_basic_css st1 = Inr st2"
    and f: "add_font_awesome st2 = Inr st3"
    and r: "finish_repair html_content (close_css_braces st3) = Repaired fixed fixes"
    by (auto simp: complete_html_structure_def st0_def split: sum.splits)
  define st4 where "st4 = close_css_braces st3"
  have s0: "r_soup st0 = soup" "r_fixed_html st0 = str_soup soup" "r_fixes_made st0 = []"
    by (simp_all add: st0_def)
  obtain e1 where e1: "r_fixes_made st1 = e1" "list_all (prefix ''Added '') e1"
    using add_structure_added [OF s] by (auto simp: s0)
  obtain e2 where e2: "r_fixes_made st2 = e1 @ e2" "list_all (prefix ''Added '') e2"
    using add_basic_css_added [OF c] e1 by auto
  obtain e3 where e3: "r_fixes_made st3 = e1 @ e2 @ e3" "list_all (prefix ''Added '') e3"
    using add_font_awesome_added [OF f] e2 by auto
  obtain e4 where e4: "r_fixes_made st4 = e1 @ e2 @ e3 @ e4" "list_all (prefix ''Added '') e4"
    using close_css_braces_added [of st3] e3 fix_styles_added [of "r_soup st3"] by (auto simp: st4_def)
  have all: "list_all (prefix ''Added '') (r_fixes_made st4)" using e1 e2 e3 e4 by simp
  have u1: "(e1 = []) = (find_first (named ''html'') soup \<noteq> None
      \<and> find_first (named ''head'') soup \<noteq> None
      \<and> find_first (named ''body'') soup \<noteq> None)"
    using add_structure_unchanged [OF s] e1 by (simp add: s0)
  have iff: "(r_fixes_made st4 = []) = complete_document soup
     \<and> (complete_document soup \<longrightarrow> r_fixed_html st4 = str_soup soup)"
  proof (cases "e1 = []")
    case False
    with u1 e4 show ?thesis by (auto simp: complete_document_def)
  next
    case True
    with u1 s have "st1 = st0" by (simp add: add_structure_same s0 st0_def)
    note one = this
    show ?thesis
    proof (cases "find_first (named ''style'') soup \<noteq> None \<or> find_first stylesheet_link soup \<noteq> None")
      case False
      with add_basic_css_added [OF c] one s0 have "r_fixes_made st2 \<noteq> []" by auto
      with e2 e4 False show ?thesis by (auto simp: complete_document_def)
    next
      case css: True
      with add_basic_css_added [OF c] one s0 have two: "st2 = st0" by auto
      show ?thesis
      proof (cases "sublist ''fa-'' (str_soup soup) \<longrightarrow> find_first font_awesome_link soup \<noteq> None")
        case False
        with add_font_awesome_added [OF f] two s0 have "r_fixes_made st3 \<noteq> []" by auto
        with e3 e4 False show ?thesis by (auto simp: complete_document_def)
      next
        case fa: True
        with add_font_awesome_added [OF f] two s0 have three: "st3 = st0" by auto
        show ?thesis
        proof (cases "snd (fix_styles soup) = []")
          case True
          with close_css_braces_added [of st3] three s0 have "st4 = st0" by (auto simp: st4_def)
          with True css fa u1 \<open>e1 = []\<close> s0 show ?thesis by (auto simp: complete_document_def)
        next
          case False
          with close_css_braces_added [of st3] three s0 have "r_fixes_made st4 \<noteq> []" by (auto simp: st4_def)
          with False show ?thesis by (auto simp: complete_document_def)
        qed
      qed
    qed
  qed
  from r all iff show ?thesis unfolding st4_def by blast
qed

section \<open>Theorems\<close>




text \<open>
  C2 (the renderer never returns), as the code has it. As written, the template f-string
  does not compile (the script block's braces are not doubled), so for every payload the
  renderer fails with \<open>SyntaxError\<close> and returns no HTML. With the script block read as
  literal text the template still cannot be built: for every payload the evaluation raises
  \<open>NameError\<close> at \<open>datetime.datetime.now().year\<close>, since no \<open>datetime\<close> is bound in main.py.
\<close>

theorem renderer_never_returns:
  "generate_portfolio_website css year profile_data = Inl (SyntaxError ''f-string: invalid syntax'') \<and>
   generate_portfolio_website_escaped css year profile_data = Inl (NameError ''datetime'')"
  by (simp add: render_as_written render_escaped)

text \<open>
  C2 as stated names \<open>NameError\<close> as what the renderer raises; on the payload of the
  specification's scenario the failure is another one.
\<close>

theorem renderer_name_error_counterexample:
  "generate_portfolio_website [] 2025 ada_payload \<noteq> Inl (NameError ''datetime'')"
  by (simp add: render_as_written)

text \<open>
  C3 (retry loop, every attempt failing), as the code has it. When each of the attempts
  raises (in the agent call or in the extraction), the loop ends after three attempts; the
  "Retrying profile fetch" update is written exactly twice (after the first and the second
  failure), the "Error fetching profile after 3 attempts" update exactly once (after the
  third, carrying its error), and the profile is the basic profile built from the username.
\<close>

theorem retry_always_failing:
  assumes "\<And>i. profile_attempt loads (agent i) = Inl (err i)"
  shows "\<exists>updates. fetch_profile loads agent username = Some (basic_profile username, updates) \<and>
     updates = [RetryingProfileFetch 1 3, RetryingProfileFetch 2 3, ErrorFetchingProfile 3 (err 2)] \<and>
     length (filter is_retrying updates) = 2 \<and> length (filter is_exhausted updates) = 1 \<and>
     is_exhausted (last updates)"
  by (simp add: fetch_profile_def fetch_profile_loop_failing [OF assms])

theorem retry_always_failing_witness:
  "profile_attempt no_loads (agent_down 0) = Inl (AgentError ''unavailable'') \<and>
   fetch_profile no_loads agent_down ''ada'' = Some (basic_profile ''ada'',
       [RetryingProfileFetch 1 3, RetryingProfileFetch 2 3,
        ErrorFetchingProfile 3 (AgentError ''unavailable'')])"
  using retry_always_failing [of no_loads agent_down "\<lambda>i. AgentError ''unavailable''" "''ada''"]
  by (simp add: profile_attempt_def agent_down_def)

text \<open>
  C3 as stated asks for three "Retrying" updates; with an agent that is always down there
  are not three.
\<close>

theorem retry_three_updates_counterexample:
  "\<not> (case fetch_profile no_loads agent_down ''ada'' of
        None \<Rightarrow> False
      | Some (profile_data, updates) \<Rightarrow>
          length (filter is_retrying updates) = 3 \<and> length (filter is_exhausted updates) = 1 \<and>
          profile_data = basic_profile ''ada'')"
proof -
  have "profile_attempt no_loads (agent_down i) = Inl (AgentError ''unavailable'')" for i
    by (simp add: profile_attempt_def agent_down_def)
  from fetch_profile_loop_failing [of no_loads agent_down "\<lambda>i. AgentError ''unavailable''", OF this]
  show ?thesis by (simp add: fetch_profile_def)
qed

text \<open>
  C4 (repository cards). The card loop builds one card for each of the first six
  repositories of the sorted list, \<open>min(N, 6)\<close> cards for \<open>N\<close> repositories, each from a
  repository of the input; but the renderer returns no output that could contain them,
  neither as written nor with the script block read as literal text.
\<close>

theorem repo_cards_never_rendered:
  "length (repo_cards profile_name (sorted_by_stars repos)) = min (length repos) 6 \<and>
   repo_cards profile_name (sorted_by_stars repos)
     = map (repo_card_html profile_name) (take 6 (sorted_by_stars repos)) \<and>
   set (take 6 (sorted_by_stars repos)) \<subseteq> set repos \<and>
   generate_portfolio_website css year \<lparr>pd_profile = profile, pd_repos = repos, pd_skills = skills\<rparr>
     = Inl (SyntaxError ''f-string: invalid syntax'') \<and>
   generate_portfolio_website css year ada_payload = Inl (SyntaxError ''f-string: invalid syntax'') \<and>
   generate_portfolio_website_escaped css year ada_payload = Inl (NameError ''datetime'')"
proof -
  have "set (take 6 (sorted_by_stars repos)) \<subseteq> set (sorted_by_stars repos)"
    by (rule set_take_subset)
  then show ?thesis
    by (simp add: repo_cards_def length_sorted_by_stars set_sorted_by_stars render_as_written
        render_escaped min.commute)
qed

text \<open>
  C5 (a second run of the repair), as the code has it. Let a run of
  \<open>complete_html_structure\<close> on a text, which may be the HTML that a first run has
  returned, return the HTML \<open>fixed_html\<close> with the entries \<open>fixes_made\<close>. Then "HTML
  structure is already valid" is the only entry exactly when the document parsed from the
  text needs no addition (it has an html, a head and a body tag, a style tag or a
  stylesheet link, a Font Awesome link if its text has \<open>fa-\<close>, and no style tag with
  unclosed braces) and the text written for that document is as long as the input. The
  entry "Fixed HTML structure and missing tags" is recorded exactly when the returned HTML
  and the input differ in length. A document that needs no addition is returned as
  \<open>str(soup)\<close> writes it.
\<close>

theorem repair_entries:
  assumes "parse html_content = Inr soup"
    and "complete_html_structure parse html_content = Repaired fixed_html fixes_made"
  shows "(fixes_made = [''HTML structure is already valid'']) =
           (complete_document soup \<and> length (str_soup soup) = length html_content)
    \<and> (''Fixed HTML structure and missing tags'' \<in> set fixes_made) =
           (length fixed_html \<noteq> length html_content)
    \<and> (complete_document soup \<longrightarrow> fixed_html = str_soup soup)"
proof -
  from repair_chain [OF assms] obtain st where
    r: "finish_repair html_content st = Repaired fixed_html fixes_made"
    and a: "list_all (prefix ''Added '') (r_fixes_made st)"
    and i: "(r_fixes_made st = []) = complete_document soup"
    and s: "complete_document soup \<longrightarrow> r_fixed_html st = str_soup soup"
    by blast
  from finish_repair_entries [OF a r] i s show ?thesis by auto
qed

theorem repair_entries_witness:
  "html_parser_table (wrap_document style_only) = Inr wrapped_document
   \<and> complete_html_structure html_parser_table (wrap_document style_only) =
     Repaired (str_soup wrapped_document) [''Fixed HTML structure and missing tags'']
   \<and> complete_document wrapped_document
   \<and> length (str_soup wrapped_document) = 139
   \<and> length (wrap_document style_only) = 137"
proof -
  have p: "html_parser_table (wrap_document style_only) = Inr wrapped_document"
    by code_simp
  have e: "complete_html_structure html_parser_table (wrap_document style_only) =
     Repaired (str_soup wrapped_document) [''Fixed HTML structure and missing tags'']"
    by code_simp
  have l: "length (str_soup wrapped_document) = 139" "length (wrap_document style_only) = 137"
    by code_simp+
  have c: "complete_document wrapped_document"
    by code_simp
  from repair_entries [OF p e] l p e c show ?thesis by simp
qed

text \<open>
  C5 as stated asks that the second run records "HTML structure is already valid" only.
  For the input \<open><style>a{}</style>\<close> the first run wraps the text (line 856) and returns
  the wrapped text itself. The second run parses it and finds nothing to add, but
  \<open>str(soup)\<close> writes the \<open>meta\<close> tag of the wrapper as \<open><meta charset="UTF-8"/>\<close> and a
  newline after the document type: its text is two characters longer than its input, and
  line 935 records "Fixed HTML structure and missing tags".
\<close>

theorem repair_second_run_counterexample:
  "complete_html_structure html_parser_table style_only =
     Repaired (wrap_document style_only)
       [''Added basic HTML structure'', ''Fixed HTML structure and missing tags'']
   \<and> fix_entries (complete_html_structure html_parser_table
        (repaired_html (complete_html_structure html_parser_table style_only))) =
     [''Fixed HTML structure and missing tags'']
   \<and> fix_entries (complete_html_structure html_parser_table
        (repaired_html (complete_html_structure html_parser_table style_only))) \<noteq>
     [''HTML structure is already valid'']"
  by code_simp



text \<open>
  C7 (skills from the histogram). Whatever languages enrichment recorded, in whatever
  order: the derived skills are exactly the distinct recorded languages; each skill's level
  is \<open>min(20 * occurrences, 100)\<close>; and the list is ordered by descending number of
  occurrences, two languages with the same number of occurrences standing in the order
  in which they were first seen.
\<close>

theorem skills_level_and_order:
  fixes langs :: "'k list"
  defines "skills \<equiv> skills_of (language_histogram langs)"
  shows "set (map name skills) = set langs \<and> distinct (map name skills) \<and>
    list_all (\<lambda>s. level s = min (int (count_list langs (name s)) * 20) 100) skills \<and>
    sorted_wrt (\<lambda>a b. count_list langs (name a) > count_list langs (name b) \<or>
       (count_list langs (name a) = count_list langs (name b) \<and>
        first_seen langs (name a) < first_seen langs (name b))) skills"
proof -
  let ?h = "language_histogram langs"
  let ?s = "sorted_reverse snd ?h"
  have names: "map name skills = map fst ?s"
    by (simp add: skills_def skills_of_def case_prod_unfold)
  have set_s: "set ?s = set ?h" by (simp add: sorted_reverse_def)
  have cnt: "snd p = int (count_list langs (fst p))" if "p \<in> set ?h" for p
    using that count_language_histogram [of "fst p" "snd p" langs] by simp
  have "set (map fst ?s) = fst ` set ?h" by (simp only: set_map set_s)
  then have 1: "set (map name skills) = set langs"
    by (simp only: names keys_language_histogram)
  have "distinct (map fst ?s)"
    using distinct_language_histogram [of langs]
    by (simp add: sorted_reverse_def distinct_map)
  then have 2: "distinct (map name skills)" by (simp only: names)
  have 3: "list_all (\<lambda>s. level s = min (int (count_list langs (name s)) * 20) 100) skills"
    using cnt by (auto simp: skills_def skills_of_def list_all_iff set_s)
  have "sorted_wrt (\<lambda>a b. first_seen langs (fst a) < first_seen langs (fst b)) ?h"
    using order_language_histogram [of langs] by (simp add: sorted_wrt_map)
  then have "sorted_wrt (\<lambda>a b. snd a > snd b \<or> (snd a = snd b \<and>
          first_seen langs (fst a) < first_seen langs (fst b))) ?s"
    by (rule sorted_reverse_stable_lex)
  then have "sorted_wrt (\<lambda>a b. count_list langs (fst a) > count_list langs (fst b) \<or>
       (count_list langs (fst a) = count_list langs (fst b) \<and>
        first_seen langs (fst a) < first_seen langs (fst b))) ?s"
  proof (rule sorted_wrt_mono_rel [rotated])
    fix a b assume "a \<in> set ?s" "b \<in> set ?s"
    then have "snd a = int (count_list langs (fst a))" "snd b = int (count_list langs (fst b))"
      using cnt set_s by auto
    moreover assume "snd a > snd b \<or> (snd a = snd b \<and>
          first_seen langs (fst a) < first_seen langs (fst b))"
    ultimately show "count_list langs (fst a) > count_list langs (fst b) \<or>
       (count_list langs (fst a) = count_list langs (fst b) \<and>
        first_seen langs (fst a) < first_seen langs (fst b))" by auto
  qed
  then have 4: "sorted_wrt (\<lambda>a b. count_list langs (name a) > count_list langs (name b) \<or>
       (count_list langs (name a) = count_list langs (name b) \<and>
        first_seen langs (name a) < first_seen langs (name b))) skills"
    by (simp add: skills_def skills_of_def sorted_wrt_map case_prod_unfold)
  from 1 2 3 4 show ?thesis by blast
qed

theorem skills_level_and_order_witness:
  "skills_of (language_histogram [''Go'', ''Rust'', ''C'', ''Rust'', ''C'']) =
     [\<lparr>name = ''Rust'', level = 40\<rparr>, \<lparr>name = ''C'', level = 40\<rparr>, \<lparr>name = ''Go'', level = 20\<rparr>] \<and>
   sorted_wrt (\<lambda>a b. count_list [''Go'', ''Rust'', ''C'', ''Rust'', ''C''] (name a)
          > count_list [''Go'', ''Rust'', ''C'', ''Rust'', ''C''] (name b) \<or>
       (count_list [''Go'', ''Rust'', ''C'', ''Rust'', ''C''] (name a)
          = count_list [''Go'', ''Rust'', ''C'', ''Rust'', ''C''] (name b) \<and>
        first_seen [''Go'', ''Rust'', ''C'', ''Rust'', ''C''] (name a)
          < first_seen [''Go'', ''Rust'', ''C'', ''Rust'', ''C''] (name b)))
     (skills_of (language_histogram [''Go'', ''Rust'', ''C'', ''Rust'', ''C'']))"
  using skills_level_and_order [of "[''Go'', ''Rust'', ''C'', ''Rust'', ''C'']"]
  by (simp add: skills_of_def language_histogram_def record_language_def dict_get_def
      sorted_reverse_def)




text \<open>
  C9 (conditional blocks). Each block is empty exactly when its value is falsy. But the
  renderer reads the handle under the key \<open>twitter_username\<close>, while the profile that
  \<open>fetch_github_profile\<close> builds stores it under \<open>twitter\<close>: for such a profile the handle
  read is empty and both twitter blocks are omitted, whatever the user's handle; and the
  renderer returns no HTML at all.
\<close>

theorem twitter_block_never_rendered:
  "(contact_location v = [] \<longleftrightarrow> \<not> truth_value v) \<and> (contact_blog v = [] \<longleftrightarrow> \<not> truth_value v) \<and>
   (contact_twitter v = [] \<longleftrightarrow> \<not> truth_value v) \<and> (footer_twitter v = [] \<longleftrightarrow> \<not> truth_value v) \<and>
   (footer_blog v = [] \<longleftrightarrow> \<not> truth_value v) \<and>
   l_twitter (renderer_locals css year
      \<lparr>pd_profile = github_profile api_user username, pd_repos = repos, pd_skills = skills\<rparr>) = PStr [] \<and>
   contact_twitter (l_twitter (renderer_locals css year
      \<lparr>pd_profile = github_profile api_user username, pd_repos = repos, pd_skills = skills\<rparr>)) = [] \<and>
   generate_portfolio_website css year
      \<lparr>pd_profile = github_profile api_user username, pd_repos = repos, pd_skills = skills\<rparr>
     = Inl (SyntaxError ''f-string: invalid syntax'') \<and>
   dict_get (pd_profile grace_payload) ''twitter'' (PStr []) = PStr ''grace'' \<and>
   contact_twitter (l_twitter (renderer_locals css year grace_payload)) = [] \<and>
   footer_twitter (l_twitter (renderer_locals css year grace_payload)) = []"
proof -
  have g: "dict_get (pd_profile grace_payload) ''twitter'' (PStr []) = PStr ''grace''"
    by (simp add: grace_payload_def github_profile_def grace_api_user_def dict_get_def)
  have k: "dict_get (pd_profile grace_payload) ''twitter_username'' (PStr []) = PStr []"
    by (simp add: grace_payload_def twitter_key_unread)
  show ?thesis
    by (simp add: contact_location_def contact_blog_def contact_twitter_def footer_twitter_def
        footer_blog_def renderer_locals_def Let_def twitter_key_unread render_as_written g k)
qed



end
